theory Spec2Isabelle
  imports Main "HOL-Library.AList"
begin

section \<open>Cell diff view models of the notebook diff editor\<close>

text \<open>
  A shallow embedding of \<^verbatim>\<open>celllDiffViewModel.ts\<close>: the layout record of a diff entry
  with its notifying setters, the single-side and the side-by-side view model with their
  output-height collections and lazily built cumulative-offset trackers, and the metadata
  snapshot used to detect a metadata change.

  Conventions of the embedding.
  \<^item> Heights and widths are natural numbers: the contract of the component is
    "non-negative integer sizes". An output index is an output position, a natural
    number; the source guards only its upper bound.
  \<^item> A JavaScript array created by \<^verbatim>\<open>new Array(n)\<close> is a list of \<open>n\<close> options, \<open>None\<close>
    being a slot never written (reading it gives \<^verbatim>\<open>undefined\<close>).
  \<^item> A method is a function from the state before to a result and the state after. A
    method that can throw returns \<open>Inl\<close> of the error beside the state at the throw:
    an exception does not roll back what was written before it.
  \<^item> The emitter \<^verbatim>\<open>_layoutInfoEmitter\<close> is the list of the events fired so far, oldest
    first; \<^verbatim>\<open>fire\<close> appends one event.
\<close>

subsection \<open>Layout record and change events\<close>

datatype PropertyFoldingState = Expanded | Collapsed

record LayoutInfo =
  width :: nat
  editorHeight :: nat
  editorMargin :: nat
  metadataStatusHeight :: nat
  metadataHeight :: nat
  outputStatusHeight :: nat
  outputHeight :: nat
  bodyMargin :: nat

text \<open>
  The descriptor of a layout change, as the parameter type of
  \<^verbatim>\<open>_fireLayoutChangeEvent\<close> declares it: five optional booleans. \<open>None\<close> is a property
  that the object literal does not have.
\<close>

record LayoutChangeEvent =
  ev_outerWidth :: "bool option"
  ev_editorHeight :: "bool option"
  ev_metadataEditor :: "bool option"
  ev_outputEditor :: "bool option"
  ev_outputView :: "bool option"

definition emptyEvent :: LayoutChangeEvent where
  "emptyEvent = \<lparr>ev_outerWidth = None, ev_editorHeight = None, ev_metadataEditor = None,
     ev_outputEditor = None, ev_outputView = None\<rparr>"

text \<open>A sub-region is flagged when its property is present and true.\<close>

definition flagged :: "bool option \<Rightarrow> bool" where
  "flagged f = (f = Some True)"

text \<open>The mutable fields of \<^verbatim>\<open>CellDiffViewModelBase\<close>.\<close>

record CellDiffViewModelBase =
  layoutInfo :: LayoutInfo
  metadataFoldingState :: PropertyFoldingState
  outputFoldingState :: PropertyFoldingState
  fired :: "LayoutChangeEvent list"

definition fireLayoutChangeEvent ::
  "LayoutChangeEvent \<Rightarrow> 'a CellDiffViewModelBase_scheme \<Rightarrow> 'a CellDiffViewModelBase_scheme" where
  "fireLayoutChangeEvent state s = s\<lparr>fired := fired s @ [state]\<rparr>"

definition set_outputHeight ::
  "nat \<Rightarrow> 'a CellDiffViewModelBase_scheme \<Rightarrow> 'a CellDiffViewModelBase_scheme" where
  "set_outputHeight height s =
     fireLayoutChangeEvent (emptyEvent\<lparr>ev_outputEditor := Some True, ev_outputView := Some True\<rparr>)
       (s\<lparr>layoutInfo := (layoutInfo s)\<lparr>outputHeight := height\<rparr>\<rparr>)"

definition get_outputHeight :: "'a CellDiffViewModelBase_scheme \<Rightarrow> nat" where
  "get_outputHeight s = outputHeight (layoutInfo s)"

definition set_outputStatusHeight ::
  "nat \<Rightarrow> 'a CellDiffViewModelBase_scheme \<Rightarrow> 'a CellDiffViewModelBase_scheme" where
  "set_outputStatusHeight height s =
     fireLayoutChangeEvent emptyEvent
       (s\<lparr>layoutInfo := (layoutInfo s)\<lparr>outputStatusHeight := height\<rparr>\<rparr>)"

definition get_outputStatusHeight :: "'a CellDiffViewModelBase_scheme \<Rightarrow> nat" where
  "get_outputStatusHeight s = outputStatusHeight (layoutInfo s)"

definition set_editorHeight ::
  "nat \<Rightarrow> 'a CellDiffViewModelBase_scheme \<Rightarrow> 'a CellDiffViewModelBase_scheme" where
  "set_editorHeight height s =
     fireLayoutChangeEvent (emptyEvent\<lparr>ev_editorHeight := Some True\<rparr>)
       (s\<lparr>layoutInfo := (layoutInfo s)\<lparr>editorHeight := height\<rparr>\<rparr>)"

definition get_editorHeight :: "'a CellDiffViewModelBase_scheme \<Rightarrow> nat" where
  "get_editorHeight s = editorHeight (layoutInfo s)"

definition set_editorMargin ::
  "nat \<Rightarrow> 'a CellDiffViewModelBase_scheme \<Rightarrow> 'a CellDiffViewModelBase_scheme" where
  "set_editorMargin height s =
     fireLayoutChangeEvent emptyEvent
       (s\<lparr>layoutInfo := (layoutInfo s)\<lparr>editorMargin := height\<rparr>\<rparr>)"

definition get_editorMargin :: "'a CellDiffViewModelBase_scheme \<Rightarrow> nat" where
  "get_editorMargin s = editorMargin (layoutInfo s)"

definition get_metadataStatusHeight :: "'a CellDiffViewModelBase_scheme \<Rightarrow> nat" where
  "get_metadataStatusHeight s = metadataStatusHeight (layoutInfo s)"

definition set_metadataHeight ::
  "nat \<Rightarrow> 'a CellDiffViewModelBase_scheme \<Rightarrow> 'a CellDiffViewModelBase_scheme" where
  "set_metadataHeight height s =
     fireLayoutChangeEvent (emptyEvent\<lparr>ev_metadataEditor := Some True\<rparr>)
       (s\<lparr>layoutInfo := (layoutInfo s)\<lparr>metadataHeight := height\<rparr>\<rparr>)"

definition get_metadataHeight :: "'a CellDiffViewModelBase_scheme \<Rightarrow> nat" where
  "get_metadataHeight s = metadataHeight (layoutInfo s)"

definition totalHeight :: "'a CellDiffViewModelBase_scheme \<Rightarrow> nat" where
  "totalHeight s =
     editorHeight (layoutInfo s)
     + editorMargin (layoutInfo s)
     + metadataHeight (layoutInfo s)
     + metadataStatusHeight (layoutInfo s)
     + outputHeight (layoutInfo s)
     + outputStatusHeight (layoutInfo s)
     + bodyMargin (layoutInfo s)"

text \<open>The layout record that the constructor of the base class installs.\<close>

definition initialLayoutInfo :: LayoutInfo where
  "initialLayoutInfo = \<lparr>width = 0, editorHeight = 0, editorMargin = 0,
     metadataStatusHeight = 25, metadataHeight = 0, outputStatusHeight = 25,
     outputHeight = 0, bodyMargin = 32\<rparr>"

text \<open>
  The handler that the constructor registers on the editor's layout event: the only
  place that flags the outer width.
\<close>

definition onDidChangeLayout ::
  "'a CellDiffViewModelBase_scheme \<Rightarrow> 'a CellDiffViewModelBase_scheme" where
  "onDidChangeLayout s = s\<lparr>fired := fired s @ [emptyEvent\<lparr>ev_outerWidth := Some True\<rparr>]\<rparr>"

text \<open>The sum of all eight fields of the layout record, as the specification words it.\<close>

definition sumOfAllFields :: "LayoutInfo \<Rightarrow> nat" where
  "sumOfAllFields l =
     width l + editorHeight l + editorMargin l + metadataStatusHeight l + metadataHeight l
     + outputStatusHeight l + outputHeight l + bodyMargin l"

subsection \<open>The cumulative-offset tracker\<close>

text \<open>
  Modelled from the spec: the class \<^verbatim>\<open>PrefixSumComputer\<close>
  (\<^verbatim>\<open>vs/editor/common/viewModel/prefixSumComputer\<close>) is imported by the view models and is
  declared in another file. The specification describes it as follows: "Given an
  ordered sequence of non-negative integer sizes, supports: query total accumulated size;
  query accumulated size up to (but excluding) a given index; update the size at a given
  index and report whether the total changed."

  The view models ask for the accumulated size up to but excluding the output \<open>index\<close>
  with the call \<^verbatim>\<open>getAccumulatedValue(index - 1)\<close>: the argument of the method is the last
  position that is counted, and an argument below \<open>0\<close> counts nothing.
\<close>

datatype PrefixSumComputer = PrefixSumComputer (sizes: "nat list")

text \<open>Modelled from the spec: \<^verbatim>\<open>getTotalValue\<close>, "query total accumulated size".\<close>

definition getTotalValue :: "PrefixSumComputer \<Rightarrow> nat" where
  "getTotalValue t = sum_list (sizes t)"

text \<open>
  Modelled from the spec: \<^verbatim>\<open>getAccumulatedValue\<close>, "query accumulated size up to (but
  excluding) a given index", the given index being the successor of the argument.
\<close>

definition getAccumulatedValue :: "PrefixSumComputer \<Rightarrow> int \<Rightarrow> nat" where
  "getAccumulatedValue t k = (if k < 0 then 0 else sum_list (take (nat k + 1) (sizes t)))"

text \<open>
  Modelled from the spec: \<^verbatim>\<open>changeValue\<close>, "update the size at a given index and report
  whether the total changed".
\<close>

definition changeValue :: "PrefixSumComputer \<Rightarrow> nat \<Rightarrow> nat \<Rightarrow> PrefixSumComputer \<times> bool" where
  "changeValue t index v =
     (let t' = PrefixSumComputer ((sizes t)[index := v])
      in (t', getTotalValue t' \<noteq> getTotalValue t))"

subsection \<open>Output-height collections\<close>

text \<open>
  Storing into a \<^verbatim>\<open>Uint32Array\<close> converts the number to an unsigned 32-bit integer: a
  natural number is reduced modulo \<open>2^32\<close>, and \<^verbatim>\<open>undefined\<close> (a slot never written)
  becomes \<open>0\<close>.
\<close>

definition toUint32 :: "nat option \<Rightarrow> nat" where
  "toUint32 v = (case v of None \<Rightarrow> 0 | Some h \<Rightarrow> h mod 2 ^ 32)"

text \<open>
  The body shared by \<^verbatim>\<open>ensureOutputsTop\<close> of the single-side model and by
  \<^verbatim>\<open>ensureOriginalOutputsTop\<close> and \<^verbatim>\<open>ensureModifiedOutputsTop\<close> of the side-by-side
  model: an absent tracker is built from a \<^verbatim>\<open>Uint32Array\<close> copy of the collection, a
  present one is kept.
\<close>

definition ensureTop ::
  "PrefixSumComputer option \<Rightarrow> nat option list \<Rightarrow> PrefixSumComputer option" where
  "ensureTop tracker collection =
     (case tracker of
        None \<Rightarrow> Some (PrefixSumComputer (map toUint32 collection))
      | Some t \<Rightarrow> Some t)"

datatype error = OutputIndexOutOfRange | TypeError

text \<open>
  \<open>OutputIndexOutOfRange\<close> is \<^verbatim>\<open>new Error('Output index out of range!')\<close>; \<open>TypeError\<close> is
  what JavaScript throws when a method is called on \<^verbatim>\<open>null\<close> or \<^verbatim>\<open>undefined\<close>, which
  is where a non-null assertion \<^verbatim>\<open>x!\<close> on an absent value ends.
\<close>

text \<open>
  A cell as far as the view models read it: its metadata object (an association list of
  field names and values, possibly absent), its language tag and its outputs.
\<close>

record ('v, 'o) NotebookCellTextModel =
  metadata :: "(string \<times> 'v) list option"
  language :: 'v
  outputs :: "'o list"

subsection \<open>The single-side view model\<close>

record SingleSideCellDiffViewModel = CellDiffViewModelBase +
  outputCollection :: "nat option list"
  outputsTop :: "PrefixSumComputer option"

text \<open>
  The constructor: the base class installs the layout record and the collapsed folding
  states; the collection is \<^verbatim>\<open>new Array(n)\<close> with \<open>n\<close> the number of outputs of the
  original cell if there is one, of the modified cell otherwise.
\<close>

definition SingleSide_new ::
  "('v, 'o) NotebookCellTextModel option \<Rightarrow> ('v, 'o) NotebookCellTextModel option
     \<Rightarrow> error + SingleSideCellDiffViewModel" where
  "SingleSide_new original modified =
     (case (case original of
              Some c \<Rightarrow> Inr (length (outputs c))
            | None \<Rightarrow> (case modified of
                         Some c \<Rightarrow> Inr (length (outputs c))
                       | None \<Rightarrow> Inl TypeError)) of
        Inl e \<Rightarrow> Inl e
      | Inr n \<Rightarrow> Inr \<lparr>layoutInfo = initialLayoutInfo,
                      metadataFoldingState = Collapsed,
                      outputFoldingState = Collapsed,
                      fired = [],
                      outputCollection = replicate n None,
                      outputsTop = None\<rparr>)"

definition ss_ensureOutputsTop :: "SingleSideCellDiffViewModel \<Rightarrow> SingleSideCellDiffViewModel" where
  "ss_ensureOutputsTop s = s\<lparr>outputsTop := ensureTop (outputsTop s) (outputCollection s)\<rparr>"

definition ss_getOutputTotalHeight ::
  "SingleSideCellDiffViewModel \<Rightarrow> nat \<times> SingleSideCellDiffViewModel" where
  "ss_getOutputTotalHeight s =
     (let s1 = ss_ensureOutputsTop s
      in ((case outputsTop s1 of Some t \<Rightarrow> getTotalValue t | None \<Rightarrow> 0), s1))"

definition ss_layoutChange :: "SingleSideCellDiffViewModel \<Rightarrow> SingleSideCellDiffViewModel" where
  "ss_layoutChange s =
     (let s1 = ss_ensureOutputsTop s;
          (height, s2) = (if outputFoldingState s1 = Collapsed then (0, s1)
                          else ss_getOutputTotalHeight s1);
          l = layoutInfo s2;
          s3 = s2\<lparr>layoutInfo :=
                 \<lparr>width = width l,
                  editorHeight = editorHeight l,
                  editorMargin = editorMargin l,
                  metadataStatusHeight = metadataStatusHeight l,
                  metadataHeight = metadataHeight l,
                  outputStatusHeight = outputStatusHeight l,
                  outputHeight = height,
                  bodyMargin = bodyMargin l\<rparr>\<rparr>
      in s3\<lparr>fired := fired s3 @ [emptyEvent]\<rparr>)"

definition ss_checkIfOutputsModified :: "SingleSideCellDiffViewModel \<Rightarrow> bool" where
  "ss_checkIfOutputsModified s = False"

definition ss_checkMetadataIfModified :: "SingleSideCellDiffViewModel \<Rightarrow> bool" where
  "ss_checkMetadataIfModified s = False"

definition ss_updateOutputHeight ::
  "nat \<Rightarrow> nat \<Rightarrow> SingleSideCellDiffViewModel \<Rightarrow> (error + unit) \<times> SingleSideCellDiffViewModel" where
  "ss_updateOutputHeight index height s =
     (if index \<ge> length (outputCollection s) then (Inl OutputIndexOutOfRange, s)
      else
        let s1 = ss_ensureOutputsTop s;
            s2 = s1\<lparr>outputCollection := (outputCollection s1)[index := Some height]\<rparr>
        in case outputsTop s2 of
             None \<Rightarrow> (Inl TypeError, s2)
           | Some t \<Rightarrow>
               let (t', changed) = changeValue t index height;
                   s3 = s2\<lparr>outputsTop := Some t'\<rparr>
               in if changed then (Inr (), ss_layoutChange s3) else (Inr (), s3))"

definition ss_getOutputOffsetInContainer ::
  "nat \<Rightarrow> SingleSideCellDiffViewModel \<Rightarrow> (error + nat) \<times> SingleSideCellDiffViewModel" where
  "ss_getOutputOffsetInContainer index s =
     (let s1 = ss_ensureOutputsTop s
      in if index \<ge> length (outputCollection s1) then (Inl OutputIndexOutOfRange, s1)
         else case outputsTop s1 of
                None \<Rightarrow> (Inl TypeError, s1)
              | Some t \<Rightarrow> (Inr (getAccumulatedValue t (int index - 1)), s1))"

subsection \<open>The side-by-side view model\<close>

record SideBySideCellDiffViewModel = CellDiffViewModelBase +
  originalOutputCollection :: "nat option list"
  originalOutputsTop :: "PrefixSumComputer option"
  modifiedOutputCollection :: "nat option list"
  modifiedOutputsTop :: "PrefixSumComputer option"

definition sbs_ensureOriginalOutputsTop ::
  "SideBySideCellDiffViewModel \<Rightarrow> SideBySideCellDiffViewModel" where
  "sbs_ensureOriginalOutputsTop s =
     s\<lparr>originalOutputsTop := ensureTop (originalOutputsTop s) (originalOutputCollection s)\<rparr>"

definition sbs_ensureModifiedOutputsTop ::
  "SideBySideCellDiffViewModel \<Rightarrow> SideBySideCellDiffViewModel" where
  "sbs_ensureModifiedOutputsTop s =
     s\<lparr>modifiedOutputsTop := ensureTop (modifiedOutputsTop s) (modifiedOutputCollection s)\<rparr>"

definition sbs_ensureOutputsTop :: "SideBySideCellDiffViewModel \<Rightarrow> SideBySideCellDiffViewModel" where
  "sbs_ensureOutputsTop s = sbs_ensureModifiedOutputsTop (sbs_ensureOriginalOutputsTop s)"

definition sbs_getOutputTotalHeight ::
  "SideBySideCellDiffViewModel \<Rightarrow> nat \<times> SideBySideCellDiffViewModel" where
  "sbs_getOutputTotalHeight s =
     (let s1 = sbs_ensureOutputsTop s
      in (max (case originalOutputsTop s1 of Some t \<Rightarrow> getTotalValue t | None \<Rightarrow> 0)
              (case modifiedOutputsTop s1 of Some t \<Rightarrow> getTotalValue t | None \<Rightarrow> 0), s1))"

definition sbs_layoutChange :: "SideBySideCellDiffViewModel \<Rightarrow> SideBySideCellDiffViewModel" where
  "sbs_layoutChange s =
     (let s1 = sbs_ensureOutputsTop s;
          (height, s2) = (if outputFoldingState s1 = Collapsed then (0, s1)
                          else sbs_getOutputTotalHeight s1);
          l = layoutInfo s2;
          s3 = s2\<lparr>layoutInfo :=
                 \<lparr>width = width l,
                  editorHeight = editorHeight l,
                  editorMargin = editorMargin l,
                  metadataStatusHeight = metadataStatusHeight l,
                  metadataHeight = metadataHeight l,
                  outputStatusHeight = outputStatusHeight l,
                  outputHeight = height,
                  bodyMargin = bodyMargin l\<rparr>\<rparr>
      in s3\<lparr>fired := fired s3 @ [emptyEvent]\<rparr>)"

definition sbs_updateOutputHeight ::
  "bool \<Rightarrow> nat \<Rightarrow> nat \<Rightarrow> SideBySideCellDiffViewModel
     \<Rightarrow> (error + unit) \<times> SideBySideCellDiffViewModel" where
  "sbs_updateOutputHeight original index height s =
     (if original then
        if index \<ge> length (originalOutputCollection s) then (Inl OutputIndexOutOfRange, s)
        else
          let s1 = sbs_ensureModifiedOutputsTop (sbs_ensureOriginalOutputsTop s);
              s2 = s1\<lparr>originalOutputCollection :=
                        (originalOutputCollection s1)[index := Some height]\<rparr>
          in case originalOutputsTop s2 of
               None \<Rightarrow> (Inl TypeError, s2)
             | Some t \<Rightarrow>
                 let (t', changed) = changeValue t index height;
                     s3 = s2\<lparr>originalOutputsTop := Some t'\<rparr>
                 in if changed then (Inr (), sbs_layoutChange s3) else (Inr (), s3)
      else
        if index \<ge> length (modifiedOutputCollection s) then (Inl OutputIndexOutOfRange, s)
        else
          let s1 = sbs_ensureModifiedOutputsTop (sbs_ensureOriginalOutputsTop s);
              s2 = s1\<lparr>modifiedOutputCollection :=
                        (modifiedOutputCollection s1)[index := Some height]\<rparr>
          in case modifiedOutputsTop s2 of
               None \<Rightarrow> (Inl TypeError, s2)
             | Some t \<Rightarrow>
                 let (t', changed) = changeValue t index height;
                     s3 = s2\<lparr>modifiedOutputsTop := Some t'\<rparr>
                 in if changed then (Inr (), sbs_layoutChange s3) else (Inr (), s3))"

definition sbs_getOutputOffsetInContainer ::
  "bool \<Rightarrow> nat \<Rightarrow> SideBySideCellDiffViewModel \<Rightarrow> (error + nat) \<times> SideBySideCellDiffViewModel" where
  "sbs_getOutputOffsetInContainer original index s =
     (let s1 = sbs_ensureOutputsTop s
      in if original then
           if index \<ge> length (originalOutputCollection s1) then (Inl OutputIndexOutOfRange, s1)
           else case originalOutputsTop s1 of
                  None \<Rightarrow> (Inl TypeError, s1)
                | Some t \<Rightarrow> (Inr (getAccumulatedValue t (int index - 1)), s1)
         else
           if index \<ge> length (modifiedOutputCollection s1) then (Inl OutputIndexOutOfRange, s1)
           else case modifiedOutputsTop s1 of
                  None \<Rightarrow> (Inl TypeError, s1)
                | Some t \<Rightarrow> (Inr (getAccumulatedValue t (int index - 1)), s1))"

subsection \<open>The metadata snapshot\<close>

text \<open>
  What the functions of this file read of the notebook document:
  \<^verbatim>\<open>transientOptions.transientMetadata\<close>, as the truth value of \<^verbatim>\<open>transientMetadata[key]\<close>
  for each field name, and \<^verbatim>\<open>transientOptions.transientOutputs\<close>.
\<close>

record NotebookTextModel =
  transientMetadata :: "string \<Rightarrow> bool"
  transientOutputs :: bool

text \<open>
  The capabilities that the file consumes and that are given from outside:
  \<^verbatim>\<open>JSON.stringify\<close> on an object, \<^verbatim>\<open>format\<close> of the JSON formatter (with no range and
  the empty options), \<^verbatim>\<open>applyEdits\<close>, and \<^verbatim>\<open>hash\<close> at the two types it is used at. They
  are parameters of the model; \<open>'e\<close> is the type of a list of edits.
\<close>

record ('v, 'o, 'e) Host =
  JSON_stringify :: "(string \<times> 'v) list \<Rightarrow> string"
  format :: "string \<Rightarrow> 'e"
  applyEdits :: "string \<Rightarrow> 'e \<Rightarrow> string"
  hashText :: "string \<Rightarrow> int"
  hashOutputs :: "'o list \<Rightarrow> int"

text \<open>
  A JavaScript object is the association list of its own properties, in the order in which
  the object enumerates them: first the keys that are array indices, in ascending numeric
  order, then the other keys in the order of their creation. \<^verbatim>\<open>Object.keys\<close>, the object
  spread and \<^verbatim>\<open>JSON.stringify\<close> all read the properties in this order.

  An array index is the canonical decimal numeral of an integer from \<open>0\<close> to \<open>2^32 - 2\<close>:
  digits only, no leading zero except for \<^verbatim>\<open>"0"\<close> itself.
\<close>

definition isDigit :: "char \<Rightarrow> bool" where
  "isDigit c = (c \<in> set ''0123456789'')"

definition numericValue :: "string \<Rightarrow> nat" where
  "numericValue k = foldl (\<lambda>n c. 10 * n + (of_char c - 48)) 0 k"

definition isArrayIndex :: "string \<Rightarrow> bool" where
  "isArrayIndex k =
     (k \<noteq> [] \<and> list_all isDigit k \<and> (k = ''0'' \<or> hd k \<noteq> CHR ''0'')
      \<and> numericValue k < 2 ^ 32 - 1)"

text \<open>A new array-index key takes its place among the array-index keys at the front.\<close>

fun insertArrayIndex :: "string \<Rightarrow> 'v \<Rightarrow> (string \<times> 'v) list \<Rightarrow> (string \<times> 'v) list" where
  "insertArrayIndex k v [] = [(k, v)]"
| "insertArrayIndex k v ((k', v') # obj) =
     (if isArrayIndex k' \<and> numericValue k' < numericValue k
      then (k', v') # insertArrayIndex k v obj
      else (k, v) # (k', v') # obj)"

text \<open>
  Defining an own data property, as the object spread and an object literal do for each
  property: the value of a key that is there is replaced in place; a new key is created,
  among the array indices or at the end.
\<close>

definition defineProperty :: "string \<Rightarrow> 'v \<Rightarrow> (string \<times> 'v) list \<Rightarrow> (string \<times> 'v) list" where
  "defineProperty k v obj =
     (if k \<in> fst ` set obj then AList.update k v obj
      else if isArrayIndex k then insertArrayIndex k v obj
      else obj @ [(k, v)])"

text \<open>
  The assignment \<^verbatim>\<open>obj[key] = v\<close> on an object created by \<^verbatim>\<open>{}\<close>. It defines the own
  property, except for the key \<^verbatim>\<open>__proto__\<close>: that assignment runs the setter inherited
  from \<^verbatim>\<open>Object.prototype\<close>, which changes the prototype of the object or does nothing,
  and the object gets no own property. (The prototype is not an own property, so neither
  the object spread nor \<^verbatim>\<open>JSON.stringify\<close> reads it.)
\<close>

definition assignProperty :: "string \<Rightarrow> 'v \<Rightarrow> (string \<times> 'v) list \<Rightarrow> (string \<times> 'v) list" where
  "assignProperty k v obj = (if k = ''__proto__'' then obj else defineProperty k v obj)"

text \<open>
  \<^verbatim>\<open>new Set([...Object.keys(metadata)])\<close>: the keys in their order, each kept where it
  first occurs. The keys of an object are distinct, so this is all of them.
\<close>

definition keySet :: "(string \<times> 'v) list \<Rightarrow> string list" where
  "keySet md = rev (remdups (rev (map fst md)))"

text \<open>
  The loop of \<^verbatim>\<open>getFormatedMetadataJSON\<close> over the keys of the metadata: a key that the
  policy does not mark transient is assigned to the filtered object with the value that
  the metadata has for it (a key of \<^verbatim>\<open>Object.keys\<close> always has one).
\<close>

definition filterMetadata :: "(string \<Rightarrow> bool) \<Rightarrow> (string \<times> 'v) list \<Rightarrow> (string \<times> 'v) list" where
  "filterMetadata transient md =
     fold (\<lambda>key filtered.
             if \<not> transient key
             then (case map_of md key of
                     Some v \<Rightarrow> assignProperty key v filtered
                   | None \<Rightarrow> filtered)
             else filtered)
          (keySet md) []"

text \<open>
  The object literal \<^verbatim>\<open>{ language, ...filteredMetadata }\<close>: the property \<^verbatim>\<open>language\<close> is
  defined first, then every own property of the filtered metadata, in its order. Without
  a document the metadata is not filtered.
\<close>

definition snapshotObject ::
  "NotebookTextModel option \<Rightarrow> (string \<times> 'v) list \<Rightarrow> 'v \<Rightarrow> (string \<times> 'v) list" where
  "snapshotObject documentTextModel md lang =
     (let filteredMetadata =
            (case documentTextModel of
               Some d \<Rightarrow> filterMetadata (transientMetadata d) md
             | None \<Rightarrow> md)
      in fold (\<lambda>(key, v) obj. defineProperty key v obj) filteredMetadata
           (defineProperty ''language'' lang []))"

definition getFormatedMetadataJSON ::
  "('v, 'o, 'e) Host \<Rightarrow> NotebookTextModel option \<Rightarrow> (string \<times> 'v) list \<Rightarrow> 'v \<Rightarrow> string" where
  "getFormatedMetadataJSON host documentTextModel md lang =
     (let content = JSON_stringify host (snapshotObject documentTextModel md lang);
          edits = format host content;
          metadataSource = applyEdits host content edits
      in metadataSource)"

datatype CellDiffType = TypeUnchanged | TypeInsert | TypeDelete | TypeModified

definition metadataOrEmpty :: "('v, 'o) NotebookCellTextModel \<Rightarrow> (string \<times> 'v) list" where
  "metadataOrEmpty c = (case metadata c of Some m \<Rightarrow> m | None \<Rightarrow> [])"

definition sbs_checkMetadataIfModified ::
  "('v, 'o, 'e) Host \<Rightarrow> NotebookTextModel \<Rightarrow> ('v, 'o) NotebookCellTextModel
     \<Rightarrow> ('v, 'o) NotebookCellTextModel \<Rightarrow> bool" where
  "sbs_checkMetadataIfModified host documentTextModel original modified =
     (hashText host (getFormatedMetadataJSON host (Some documentTextModel)
                       (metadataOrEmpty original) (language original))
      \<noteq> hashText host (getFormatedMetadataJSON host (Some documentTextModel)
                          (metadataOrEmpty modified) (language modified)))"

definition sbs_checkIfOutputsModified ::
  "('v, 'o, 'e) Host \<Rightarrow> NotebookTextModel \<Rightarrow> ('v, 'o) NotebookCellTextModel
     \<Rightarrow> ('v, 'o) NotebookCellTextModel \<Rightarrow> CellDiffType \<Rightarrow> bool" where
  "sbs_checkIfOutputsModified host documentTextModel original modified type =
     (\<not> transientOutputs documentTextModel \<and> type = TypeModified
      \<and> hashOutputs host (outputs original) \<noteq> hashOutputs host (outputs modified))"

text \<open>
  The constructor of the side-by-side model: the folding states are expanded where the
  two checks find a change, and each collection is \<^verbatim>\<open>new Array(n)\<close> for the outputs of
  its cell.
\<close>

definition SideBySide_new ::
  "('v, 'o, 'e) Host \<Rightarrow> NotebookTextModel \<Rightarrow> ('v, 'o) NotebookCellTextModel
     \<Rightarrow> ('v, 'o) NotebookCellTextModel \<Rightarrow> CellDiffType \<Rightarrow> SideBySideCellDiffViewModel" where
  "SideBySide_new host documentTextModel original modified type =
     \<lparr>layoutInfo = initialLayoutInfo,
      metadataFoldingState =
        (if sbs_checkMetadataIfModified host documentTextModel original modified
         then Expanded else Collapsed),
      outputFoldingState =
        (if sbs_checkIfOutputsModified host documentTextModel original modified type
         then Expanded else Collapsed),
      fired = [],
      originalOutputCollection = replicate (length (outputs original)) None,
      originalOutputsTop = None,
      modifiedOutputCollection = replicate (length (outputs modified)) None,
      modifiedOutputsTop = None\<rparr>"

subsection \<open>Sequences of calls\<close>

text \<open>
  The public interface of a view model as a datatype of calls, to speak of "any sequence
  of operations". The calls of the base class are the five setters, an assignment to one
  of the two public folding states, and the layout event of the editor.
\<close>

datatype BaseCall =
    Set_outputHeight nat
  | Set_outputStatusHeight nat
  | Set_editorHeight nat
  | Set_editorMargin nat
  | Set_metadataHeight nat
  | Set_metadataFoldingState PropertyFoldingState
  | Set_outputFoldingState PropertyFoldingState
  | EditorLayoutChanged

fun base_exec :: "BaseCall \<Rightarrow> 'a CellDiffViewModelBase_scheme \<Rightarrow> 'a CellDiffViewModelBase_scheme" where
  "base_exec (Set_outputHeight h) s = set_outputHeight h s"
| "base_exec (Set_outputStatusHeight h) s = set_outputStatusHeight h s"
| "base_exec (Set_editorHeight h) s = set_editorHeight h s"
| "base_exec (Set_editorMargin h) s = set_editorMargin h s"
| "base_exec (Set_metadataHeight h) s = set_metadataHeight h s"
| "base_exec (Set_metadataFoldingState f) s = s\<lparr>metadataFoldingState := f\<rparr>"
| "base_exec (Set_outputFoldingState f) s = s\<lparr>outputFoldingState := f\<rparr>"
| "base_exec EditorLayoutChanged s = onDidChangeLayout s"

definition thrown :: "error + 'a \<Rightarrow> error option" where
  "thrown r = (case r of Inl e \<Rightarrow> Some e | Inr _ \<Rightarrow> None)"

datatype SingleSideCall =
    SS_base BaseCall
  | SS_updateOutputHeight nat nat
  | SS_getOutputOffsetInContainer nat
  | SS_getOutputTotalHeight
  | SS_ensureOutputsTop
  | SS_layoutChange

text \<open>One call: the error it throws, if any, and the state it leaves.\<close>

fun ss_exec ::
  "SingleSideCall \<Rightarrow> SingleSideCellDiffViewModel \<Rightarrow> error option \<times> SingleSideCellDiffViewModel" where
  "ss_exec (SS_base c) s = (None, base_exec c s)"
| "ss_exec (SS_updateOutputHeight i h) s =
     (thrown (fst (ss_updateOutputHeight i h s)), snd (ss_updateOutputHeight i h s))"
| "ss_exec (SS_getOutputOffsetInContainer i) s =
     (thrown (fst (ss_getOutputOffsetInContainer i s)), snd (ss_getOutputOffsetInContainer i s))"
| "ss_exec SS_getOutputTotalHeight s = (None, snd (ss_getOutputTotalHeight s))"
| "ss_exec SS_ensureOutputsTop s = (None, ss_ensureOutputsTop s)"
| "ss_exec SS_layoutChange s = (None, ss_layoutChange s)"

text \<open>
  A sequence of calls, oldest first. A call that throws leaves the state of the throw,
  and the next call goes on from there.
\<close>

definition ss_run ::
  "SingleSideCall list \<Rightarrow> SingleSideCellDiffViewModel \<Rightarrow> SingleSideCellDiffViewModel" where
  "ss_run calls s = fold (\<lambda>c s'. snd (ss_exec c s')) calls s"

datatype SideBySideCall =
    SBS_base BaseCall
  | SBS_updateOutputHeight bool nat nat
  | SBS_getOutputOffsetInContainer bool nat
  | SBS_getOutputTotalHeight
  | SBS_ensureOriginalOutputsTop
  | SBS_ensureModifiedOutputsTop
  | SBS_ensureOutputsTop
  | SBS_layoutChange

fun sbs_exec ::
  "SideBySideCall \<Rightarrow> SideBySideCellDiffViewModel \<Rightarrow> error option \<times> SideBySideCellDiffViewModel" where
  "sbs_exec (SBS_base c) s = (None, base_exec c s)"
| "sbs_exec (SBS_updateOutputHeight b i h) s =
     (thrown (fst (sbs_updateOutputHeight b i h s)), snd (sbs_updateOutputHeight b i h s))"
| "sbs_exec (SBS_getOutputOffsetInContainer b i) s =
     (thrown (fst (sbs_getOutputOffsetInContainer b i s)),
      snd (sbs_getOutputOffsetInContainer b i s))"
| "sbs_exec SBS_getOutputTotalHeight s = (None, snd (sbs_getOutputTotalHeight s))"
| "sbs_exec SBS_ensureOriginalOutputsTop s = (None, sbs_ensureOriginalOutputsTop s)"
| "sbs_exec SBS_ensureModifiedOutputsTop s = (None, sbs_ensureModifiedOutputsTop s)"
| "sbs_exec SBS_ensureOutputsTop s = (None, sbs_ensureOutputsTop s)"
| "sbs_exec SBS_layoutChange s = (None, sbs_layoutChange s)"

definition sbs_run ::
  "SideBySideCall list \<Rightarrow> SideBySideCellDiffViewModel \<Rightarrow> SideBySideCellDiffViewModel" where
  "sbs_run calls s = fold (\<lambda>c s'. snd (sbs_exec c s')) calls s"

subsection \<open>The vocabulary of the properties\<close>

text \<open>The height stored in a slot of a collection, a slot never written counting as \<open>0\<close>.\<close>

definition storedHeight :: "nat option \<Rightarrow> nat" where
  "storedHeight c = (case c of None \<Rightarrow> 0 | Some h \<Rightarrow> h)"

definition totalOfHeights :: "nat option list \<Rightarrow> nat" where
  "totalOfHeights collection = sum_list (map storedHeight collection)"

text \<open>
  The height most recently set at position \<open>j\<close> by the calls of a sequence, \<open>0\<close> if none
  of them set it.
\<close>

definition ss_latestHeight :: "SingleSideCall list \<Rightarrow> nat \<Rightarrow> nat" where
  "ss_latestHeight calls j =
     fold (\<lambda>c latest. case c of SS_updateOutputHeight i h \<Rightarrow> if i = j then h else latest
                              | _ \<Rightarrow> latest) calls 0"

text \<open>
  A tracker is consistent with its collection when it is absent or holds exactly the
  heights of the collection.
\<close>

definition trackerConsistent :: "PrefixSumComputer option \<Rightarrow> nat option list \<Rightarrow> bool" where
  "trackerConsistent tracker collection =
     (case tracker of
        None \<Rightarrow> True
      | Some t \<Rightarrow> sizes t = map storedHeight collection)"

text \<open>
  The inductive form of the invariant: moreover, while the tracker is absent no slot of
  the collection has been written.
\<close>

definition trackerInv :: "PrefixSumComputer option \<Rightarrow> nat option list \<Rightarrow> bool" where
  "trackerInv tracker collection =
     (case tracker of
        None \<Rightarrow> list_all (\<lambda>c. c = None) collection
      | Some t \<Rightarrow> sizes t = map storedHeight collection)"

text \<open>
  The five sub-regions that a layout change event can flag, and the list of those that
  an event does flag.
\<close>

datatype SubRegion = OuterWidth | EditorHeight | MetadataEditor | OutputEditor | OutputView

definition flaggedRegions :: "LayoutChangeEvent \<Rightarrow> SubRegion list" where
  "flaggedRegions e =
     filter (\<lambda>r. flagged (case r of
                              OuterWidth \<Rightarrow> ev_outerWidth e
                            | EditorHeight \<Rightarrow> ev_editorHeight e
                            | MetadataEditor \<Rightarrow> ev_metadataEditor e
                            | OutputEditor \<Rightarrow> ev_outputEditor e
                            | OutputView \<Rightarrow> ev_outputView e))
       [OuterWidth, EditorHeight, MetadataEditor, OutputEditor, OutputView]"


section \<open>Properties\<close>

subsection \<open>The tracker and its collection\<close>

lemma ensureTop_Some: "\<exists>t'. ensureTop t c = Some t'"
  by (simp add: ensureTop_def split: option.splits)

lemma toUint32_unset: "list_all (\<lambda>c. c = None) cs \<Longrightarrow> map toUint32 cs = map storedHeight cs"
  by (induction cs) (simp_all add: toUint32_def storedHeight_def)

lemma ensureTop_inv:
  "trackerInv t c \<Longrightarrow> ensureTop t c = Some (PrefixSumComputer (map storedHeight c))"
  by (cases t) (auto simp: trackerInv_def ensureTop_def toUint32_unset PrefixSumComputer.expand)

lemma trackerInv_full: "trackerInv (Some (PrefixSumComputer (map storedHeight c))) c"
  by (simp add: trackerInv_def)

lemma trackerInv_consistent: "trackerInv t c \<Longrightarrow> trackerConsistent t c"
  by (simp add: trackerInv_def trackerConsistent_def split: option.splits)

lemma trackerInv_fresh: "trackerInv None (replicate n None)"
  by (simp add: trackerInv_def list_all_iff)

lemma layout_rebuild:
  "\<lparr>width = width l, editorHeight = editorHeight l, editorMargin = editorMargin l,
    metadataStatusHeight = metadataStatusHeight l, metadataHeight = metadataHeight l,
    outputStatusHeight = outputStatusHeight l, outputHeight = h, bodyMargin = bodyMargin l\<rparr>
   = l\<lparr>outputHeight := h\<rparr>"
  by simp

lemma sum_list_update_changed:
  fixes xs :: "nat list"
  assumes "i < length xs"
  shows "(sum_list (xs[i := v]) \<noteq> sum_list xs) = (v \<noteq> xs ! i)"
proof -
  have le: "xs ! i \<le> sum_list xs"
    using assms by (simp add: member_le_sum_list)
  have "sum_list (xs[i := v]) = sum_list xs + v - xs ! i"
    using assms by (rule sum_list_update)
  with le show ?thesis by auto
qed

lemma changeValue_valid:
  "i < length (sizes t) \<Longrightarrow>
   changeValue t i v = (PrefixSumComputer ((sizes t)[i := v]), v \<noteq> sizes t ! i)"
  by (simp add: changeValue_def Let_def getTotalValue_def sum_list_update_changed)

lemma storedHeight_update:
  "map storedHeight (c[i := Some h]) = (map storedHeight c)[i := h]"
  by (simp add: map_update storedHeight_def)

lemma ss_layoutChange_full:
  "outputsTop s = Some t \<Longrightarrow>
   ss_layoutChange s =
     s\<lparr>layoutInfo := (layoutInfo s)\<lparr>outputHeight :=
           (if outputFoldingState s = Collapsed then 0 else getTotalValue t)\<rparr>,
       fired := fired s @ [emptyEvent]\<rparr>"
  by (simp add: ss_layoutChange_def ss_ensureOutputsTop_def ensureTop_def
      ss_getOutputTotalHeight_def Let_def)

lemma ss_update_valid:
  assumes "trackerInv (outputsTop s) (outputCollection s)" and "i < length (outputCollection s)"
  shows "ss_updateOutputHeight i h s =
    (Inr (),
     let c' = (outputCollection s)[i := Some h];
         s3 = s\<lparr>outputCollection := c',
                outputsTop := Some (PrefixSumComputer (map storedHeight c'))\<rparr>
     in if h \<noteq> storedHeight (outputCollection s ! i) then ss_layoutChange s3 else s3)"
  using assms
  by (simp add: ss_updateOutputHeight_def ss_ensureOutputsTop_def ensureTop_inv
      changeValue_valid storedHeight_update Let_def)


lemma base_exec_ss_fields:
  "outputCollection (base_exec c s) = outputCollection s"
  "outputsTop (base_exec c s) = outputsTop s"
  by (cases c; simp add: set_outputHeight_def set_outputStatusHeight_def set_editorHeight_def
      set_editorMargin_def set_metadataHeight_def onDidChangeLayout_def
      fireLayoutChangeEvent_def)+

lemma ss_layoutChange_fields:
  "outputCollection (ss_layoutChange s) = outputCollection s"
  "outputsTop (ss_layoutChange s) = ensureTop (outputsTop s) (outputCollection s)"
  by (simp_all add: ss_layoutChange_def ss_ensureOutputsTop_def ss_getOutputTotalHeight_def
      Let_def ensureTop_def split: option.splits prod.splits)

lemma ss_update_collection:
  "outputCollection (snd (ss_updateOutputHeight i h s)) = (outputCollection s)[i := Some h]"
proof -
  obtain t where t: "ensureTop (outputsTop s) (outputCollection s) = Some t"
    using ensureTop_Some by blast
  show ?thesis
    by (simp add: ss_updateOutputHeight_def ss_ensureOutputsTop_def t
        Let_def ss_layoutChange_fields list_update_beyond split: prod.splits)
qed

lemma ss_exec_collection:
  "outputCollection (snd (ss_exec c s)) =
     (case c of SS_updateOutputHeight i h \<Rightarrow> (outputCollection s)[i := Some h]
              | _ \<Rightarrow> outputCollection s)"
  by (cases c)
    (simp_all add: base_exec_ss_fields ss_getOutputOffsetInContainer_def Let_def
      ss_ensureOutputsTop_def ss_getOutputTotalHeight_def ss_layoutChange_fields
      ss_update_collection split: option.splits)

lemma ss_exec_inv:
  assumes "trackerInv (outputsTop s) (outputCollection s)"
  shows "trackerInv (outputsTop (snd (ss_exec c s))) (outputCollection (snd (ss_exec c s)))"
proof (cases c)
  case (SS_base b)
  then show ?thesis using assms by (simp add: base_exec_ss_fields)
next
  case (SS_updateOutputHeight i h)
  show ?thesis
  proof (cases "i < length (outputCollection s)")
    case True
    then show ?thesis
      using assms
      by (simp add: SS_updateOutputHeight ss_update_valid Let_def ss_layoutChange_fields
          ensureTop_def trackerInv_full)
  next
    case False
    then show ?thesis
      using assms by (simp add: SS_updateOutputHeight ss_updateOutputHeight_def)
  qed
next
  case (SS_getOutputOffsetInContainer i)
  then show ?thesis
    using assms
    by (simp add: ss_getOutputOffsetInContainer_def ss_ensureOutputsTop_def Let_def
        ensureTop_inv trackerInv_full)
next
  case SS_getOutputTotalHeight
  then show ?thesis
    using assms
    by (simp add: ss_getOutputTotalHeight_def ss_ensureOutputsTop_def Let_def
        ensureTop_inv trackerInv_full)
next
  case SS_ensureOutputsTop
  then show ?thesis
    using assms by (simp add: ss_ensureOutputsTop_def ensureTop_inv trackerInv_full)
next
  case SS_layoutChange
  then show ?thesis
    using assms by (simp add: ss_layoutChange_fields ensureTop_inv trackerInv_full)
qed

lemma ss_run_snoc: "ss_run (calls @ [c]) s = snd (ss_exec c (ss_run calls s))"
  by (simp add: ss_run_def)

lemma ss_run_inv:
  "trackerInv (outputsTop s) (outputCollection s) \<Longrightarrow>
   trackerInv (outputsTop (ss_run calls s)) (outputCollection (ss_run calls s))"
proof (induction calls rule: rev_induct)
  case Nil
  then show ?case by (simp add: ss_run_def)
next
  case (snoc c calls)
  then show ?case by (simp add: ss_run_snoc ss_exec_inv)
qed

lemma ss_run_collection_snoc:
  "outputCollection (ss_run (calls @ [c]) s) =
     (case c of SS_updateOutputHeight i h \<Rightarrow> (outputCollection (ss_run calls s))[i := Some h]
              | _ \<Rightarrow> outputCollection (ss_run calls s))"
  by (simp only: ss_run_snoc ss_exec_collection)

lemma ss_run_length:
  "length (outputCollection (ss_run calls s)) = length (outputCollection s)"
proof (induction calls rule: rev_induct)
  case Nil
  then show ?case by (simp add: ss_run_def)
next
  case (snoc c calls)
  then show ?case by (cases c) (simp_all add: ss_run_collection_snoc)
qed

lemma ss_latestHeight_snoc:
  "ss_latestHeight (calls @ [c]) j =
     (case c of SS_updateOutputHeight i h \<Rightarrow> if i = j then h else ss_latestHeight calls j
              | _ \<Rightarrow> ss_latestHeight calls j)"
  by (cases c) (simp_all add: ss_latestHeight_def)

lemma ss_run_latest:
  assumes "list_all (\<lambda>c. c = None) (outputCollection s)" and "j < length (outputCollection s)"
  shows "storedHeight (outputCollection (ss_run calls s) ! j) = ss_latestHeight calls j"
proof (induction calls rule: rev_induct)
  case Nil
  from assms show ?case
    by (simp add: ss_run_def ss_latestHeight_def list_all_length storedHeight_def)
next
  case (snoc c calls)
  have len: "j < length (outputCollection (ss_run calls s))"
    using assms(2) by (simp add: ss_run_length)
  show ?case
    using snoc len
    by (cases c)
      (simp_all add: ss_run_collection_snoc ss_latestHeight_snoc nth_list_update
        storedHeight_def)
qed

lemma ss_offset_valid:
  assumes "trackerInv (outputsTop s) (outputCollection s)" and "i < length (outputCollection s)"
  shows "fst (ss_getOutputOffsetInContainer i s) =
           Inr (sum_list (map storedHeight (take i (outputCollection s))))"
  using assms
  by (simp add: ss_getOutputOffsetInContainer_def ss_ensureOutputsTop_def Let_def
      ensureTop_inv getAccumulatedValue_def take_map nat_diff_distrib
      split: nat.splits)

lemma SingleSide_new_fresh:
  assumes "SingleSide_new original modified = Inr s0"
  shows "outputsTop s0 = None"
    and "\<exists>n. outputCollection s0 = replicate n None"
  using assms
  by (auto simp: SingleSide_new_def split: option.splits sum.splits)

lemma heights_take_upt:
  assumes "i \<le> length c"
  shows "map storedHeight (take i c) = map (\<lambda>j. storedHeight (c ! j)) [0..<i]"
  using assms by (simp add: list_eq_iff_nth_eq)

lemma base_exec_sbs_fields:
  "originalOutputCollection (base_exec c s) = originalOutputCollection s"
  "originalOutputsTop (base_exec c s) = originalOutputsTop s"
  "modifiedOutputCollection (base_exec c s) = modifiedOutputCollection s"
  "modifiedOutputsTop (base_exec c s) = modifiedOutputsTop s"
  by (cases c; simp add: set_outputHeight_def set_outputStatusHeight_def set_editorHeight_def
      set_editorMargin_def set_metadataHeight_def onDidChangeLayout_def
      fireLayoutChangeEvent_def)+

lemma sbs_ensureOutputsTop_eq:
  "sbs_ensureOutputsTop s =
     s\<lparr>originalOutputsTop := ensureTop (originalOutputsTop s) (originalOutputCollection s),
       modifiedOutputsTop := ensureTop (modifiedOutputsTop s) (modifiedOutputCollection s)\<rparr>"
  by (simp add: sbs_ensureOutputsTop_def sbs_ensureOriginalOutputsTop_def
      sbs_ensureModifiedOutputsTop_def)

lemma ensureTop_idem: "ensureTop (ensureTop t c) c = ensureTop t c"
  by (simp add: ensureTop_def split: option.splits)

lemma sbs_getOutputTotalHeight_fields:
  "originalOutputCollection (snd (sbs_getOutputTotalHeight s)) = originalOutputCollection s"
  "modifiedOutputCollection (snd (sbs_getOutputTotalHeight s)) = modifiedOutputCollection s"
  "originalOutputsTop (snd (sbs_getOutputTotalHeight s)) =
     ensureTop (originalOutputsTop s) (originalOutputCollection s)"
  "modifiedOutputsTop (snd (sbs_getOutputTotalHeight s)) =
     ensureTop (modifiedOutputsTop s) (modifiedOutputCollection s)"
  by (simp_all add: sbs_getOutputTotalHeight_def sbs_ensureOutputsTop_eq Let_def)

lemma sbs_layoutChange_fields:
  "originalOutputCollection (sbs_layoutChange s) = originalOutputCollection s"
  "modifiedOutputCollection (sbs_layoutChange s) = modifiedOutputCollection s"
  "originalOutputsTop (sbs_layoutChange s) =
     ensureTop (originalOutputsTop s) (originalOutputCollection s)"
  "modifiedOutputsTop (sbs_layoutChange s) =
     ensureTop (modifiedOutputsTop s) (modifiedOutputCollection s)"
  by (simp_all add: sbs_layoutChange_def sbs_getOutputTotalHeight_def sbs_ensureOutputsTop_eq
      Let_def ensureTop_idem split: prod.splits)

lemma sbs_layoutChange_full:
  "originalOutputsTop s = Some t1 \<Longrightarrow> modifiedOutputsTop s = Some t2 \<Longrightarrow>
   sbs_layoutChange s =
     s\<lparr>layoutInfo := (layoutInfo s)\<lparr>outputHeight :=
           (if outputFoldingState s = Collapsed then 0
            else max (getTotalValue t1) (getTotalValue t2))\<rparr>,
       fired := fired s @ [emptyEvent]\<rparr>"
  by (simp add: sbs_layoutChange_def sbs_ensureOutputsTop_eq ensureTop_def
      sbs_getOutputTotalHeight_def Let_def)

lemma sbs_update_valid_original:
  assumes "trackerInv (originalOutputsTop s) (originalOutputCollection s)"
    and "trackerInv (modifiedOutputsTop s) (modifiedOutputCollection s)"
    and "i < length (originalOutputCollection s)"
  shows "sbs_updateOutputHeight True i h s =
    (Inr (),
     let c' = (originalOutputCollection s)[i := Some h];
         s3 = s\<lparr>originalOutputCollection := c',
                originalOutputsTop := Some (PrefixSumComputer (map storedHeight c')),
                modifiedOutputsTop :=
                  Some (PrefixSumComputer (map storedHeight (modifiedOutputCollection s)))\<rparr>
     in if h \<noteq> storedHeight (originalOutputCollection s ! i) then sbs_layoutChange s3 else s3)"
  using assms
  by (cases s)
    (simp add: sbs_updateOutputHeight_def sbs_ensureOriginalOutputsTop_def
      sbs_ensureModifiedOutputsTop_def ensureTop_inv
      changeValue_valid storedHeight_update Let_def)

lemma sbs_update_valid_modified:
  assumes "trackerInv (originalOutputsTop s) (originalOutputCollection s)"
    and "trackerInv (modifiedOutputsTop s) (modifiedOutputCollection s)"
    and "i < length (modifiedOutputCollection s)"
  shows "sbs_updateOutputHeight False i h s =
    (Inr (),
     let c' = (modifiedOutputCollection s)[i := Some h];
         s3 = s\<lparr>modifiedOutputCollection := c',
                originalOutputsTop :=
                  Some (PrefixSumComputer (map storedHeight (originalOutputCollection s))),
                modifiedOutputsTop := Some (PrefixSumComputer (map storedHeight c'))\<rparr>
     in if h \<noteq> storedHeight (modifiedOutputCollection s ! i) then sbs_layoutChange s3 else s3)"
  using assms
  by (cases s)
    (simp add: sbs_updateOutputHeight_def sbs_ensureOriginalOutputsTop_def
      sbs_ensureModifiedOutputsTop_def ensureTop_inv
      changeValue_valid storedHeight_update Let_def)

lemma sbs_update_inv:
  assumes "trackerInv (originalOutputsTop s) (originalOutputCollection s)"
    and "trackerInv (modifiedOutputsTop s) (modifiedOutputCollection s)"
  shows "trackerInv (originalOutputsTop (snd (sbs_updateOutputHeight b i h s)))
           (originalOutputCollection (snd (sbs_updateOutputHeight b i h s)))
       \<and> trackerInv (modifiedOutputsTop (snd (sbs_updateOutputHeight b i h s)))
           (modifiedOutputCollection (snd (sbs_updateOutputHeight b i h s)))"
proof (cases b)
  case True
  show ?thesis
  proof (cases "i < length (originalOutputCollection s)")
    case valid: True
    show ?thesis
      using assms valid
      by (simp add: True sbs_update_valid_original Let_def sbs_layoutChange_fields
          ensureTop_def trackerInv_full)
  next
    case False
    then show ?thesis using assms by (simp add: True sbs_updateOutputHeight_def)
  qed
next
  case False
  show ?thesis
  proof (cases "i < length (modifiedOutputCollection s)")
    case valid: True
    show ?thesis
      using assms valid
      by (simp add: False sbs_update_valid_modified Let_def sbs_layoutChange_fields
          ensureTop_def trackerInv_full)
  next
    case invalid: False
    then show ?thesis using assms by (simp add: False sbs_updateOutputHeight_def)
  qed
qed

lemma sbs_exec_inv:
  assumes "trackerInv (originalOutputsTop s) (originalOutputCollection s)"
    and "trackerInv (modifiedOutputsTop s) (modifiedOutputCollection s)"
  shows "trackerInv (originalOutputsTop (snd (sbs_exec c s)))
           (originalOutputCollection (snd (sbs_exec c s)))
       \<and> trackerInv (modifiedOutputsTop (snd (sbs_exec c s)))
           (modifiedOutputCollection (snd (sbs_exec c s)))"
proof (cases c)
  case (SBS_updateOutputHeight b i h)
  then show ?thesis using sbs_update_inv [OF assms] by simp
qed (use assms in \<open>simp_all add: base_exec_sbs_fields sbs_getOutputOffsetInContainer_def Let_def
      sbs_ensureOutputsTop_eq sbs_ensureOriginalOutputsTop_def sbs_ensureModifiedOutputsTop_def
      sbs_getOutputTotalHeight_fields sbs_layoutChange_fields ensureTop_inv trackerInv_full\<close>)

lemma sbs_run_snoc: "sbs_run (calls @ [c]) s = snd (sbs_exec c (sbs_run calls s))"
  by (simp add: sbs_run_def)

lemma sbs_run_inv:
  assumes "trackerInv (originalOutputsTop s) (originalOutputCollection s)"
    and "trackerInv (modifiedOutputsTop s) (modifiedOutputCollection s)"
  shows "trackerInv (originalOutputsTop (sbs_run calls s))
           (originalOutputCollection (sbs_run calls s))
       \<and> trackerInv (modifiedOutputsTop (sbs_run calls s))
           (modifiedOutputCollection (sbs_run calls s))"
proof (induction calls rule: rev_induct)
  case Nil
  from assms show ?case by (simp add: sbs_run_def)
next
  case (snoc c calls)
  then show ?case by (simp only: sbs_run_snoc sbs_exec_inv)
qed

lemma SideBySide_new_fresh:
  "originalOutputsTop (SideBySide_new host d original modified type) = None"
  "modifiedOutputsTop (SideBySide_new host d original modified type) = None"
  "originalOutputCollection (SideBySide_new host d original modified type) =
     replicate (length (outputs original)) None"
  "modifiedOutputCollection (SideBySide_new host d original modified type) =
     replicate (length (outputs modified)) None"
  by (simp_all add: SideBySide_new_def)

lemma sbs_total_valid:
  assumes "trackerInv (originalOutputsTop s) (originalOutputCollection s)"
    and "trackerInv (modifiedOutputsTop s) (modifiedOutputCollection s)"
  shows "fst (sbs_getOutputTotalHeight s) =
           max (totalOfHeights (originalOutputCollection s))
               (totalOfHeights (modifiedOutputCollection s))"
  using assms
  by (simp add: sbs_getOutputTotalHeight_def sbs_ensureOutputsTop_eq Let_def ensureTop_inv
      getTotalValue_def totalOfHeights_def)

lemma ss_total_valid:
  assumes "trackerInv (outputsTop s) (outputCollection s)"
  shows "fst (ss_getOutputTotalHeight s) = totalOfHeights (outputCollection s)"
  using assms
  by (simp add: ss_getOutputTotalHeight_def ss_ensureOutputsTop_def Let_def ensureTop_inv
      getTotalValue_def totalOfHeights_def)

lemma ss_update_result:
  "fst (ss_updateOutputHeight i h s) =
     (if length (outputCollection s) \<le> i then Inl OutputIndexOutOfRange else Inr ())"
proof -
  obtain t where t: "ensureTop (outputsTop s) (outputCollection s) = Some t"
    using ensureTop_Some by blast
  show ?thesis
    by (simp add: ss_updateOutputHeight_def ss_ensureOutputsTop_def t Let_def split: prod.splits)
qed

lemma ss_offset_thrown:
  "thrown (fst (ss_getOutputOffsetInContainer i s)) =
     (if length (outputCollection s) \<le> i then Some OutputIndexOutOfRange else None)"
proof -
  obtain t where t: "ensureTop (outputsTop s) (outputCollection s) = Some t"
    using ensureTop_Some by blast
  show ?thesis
    by (simp add: ss_getOutputOffsetInContainer_def ss_ensureOutputsTop_def t Let_def thrown_def)
qed

lemma sbs_update_result:
  "fst (sbs_updateOutputHeight b i h s) =
     (if length (if b then originalOutputCollection s else modifiedOutputCollection s) \<le> i
      then Inl OutputIndexOutOfRange else Inr ())"
proof -
  obtain t1 where t1: "ensureTop (originalOutputsTop s) (originalOutputCollection s) = Some t1"
    using ensureTop_Some by blast
  obtain t2 where t2: "ensureTop (modifiedOutputsTop s) (modifiedOutputCollection s) = Some t2"
    using ensureTop_Some by blast
  show ?thesis
    by (simp add: sbs_updateOutputHeight_def sbs_ensureOriginalOutputsTop_def
        sbs_ensureModifiedOutputsTop_def t1 t2 Let_def split: prod.splits)
qed

lemma sbs_offset_thrown:
  "thrown (fst (sbs_getOutputOffsetInContainer b i s)) =
     (if length (if b then originalOutputCollection s else modifiedOutputCollection s) \<le> i
      then Some OutputIndexOutOfRange else None)"
proof -
  obtain t1 where t1: "ensureTop (originalOutputsTop s) (originalOutputCollection s) = Some t1"
    using ensureTop_Some by blast
  obtain t2 where t2: "ensureTop (modifiedOutputsTop s) (modifiedOutputCollection s) = Some t2"
    using ensureTop_Some by blast
  show ?thesis
    by (simp add: sbs_getOutputOffsetInContainer_def sbs_ensureOutputsTop_eq
        t1 t2 Let_def thrown_def)
qed

lemma ss_exec_no_TypeError: "fst (ss_exec c s) \<noteq> Some TypeError"
  by (cases c) (simp_all add: ss_offset_thrown, simp_all add: ss_update_result thrown_def)

lemma sbs_exec_no_TypeError: "fst (sbs_exec c s) \<noteq> Some TypeError"
  by (cases c) (simp_all add: sbs_offset_thrown, simp_all add: sbs_update_result thrown_def)

lemma ss_reachable_inv:
  assumes "SingleSide_new original modified = Inr s0"
  shows "trackerInv (outputsTop (ss_run calls s0)) (outputCollection (ss_run calls s0))"
proof -
  obtain n where "outputsTop s0 = None" "outputCollection s0 = replicate n None"
    using SingleSide_new_fresh [OF assms] by blast
  then have "trackerInv (outputsTop s0) (outputCollection s0)"
    by (simp add: trackerInv_fresh)
  then show ?thesis by (rule ss_run_inv)
qed

lemma sbs_reachable_inv:
  fixes host :: "('v, 'o, 'e) Host" and d :: NotebookTextModel
    and original modified :: "('v, 'o) NotebookCellTextModel" and type :: CellDiffType
    and calls :: "SideBySideCall list"
  defines "s \<equiv> sbs_run calls (SideBySide_new host d original modified type)"
  shows "trackerInv (originalOutputsTop s) (originalOutputCollection s)"
    and "trackerInv (modifiedOutputsTop s) (modifiedOutputCollection s)"
  using sbs_run_inv [of "SideBySide_new host d original modified type" calls]
  by (simp_all add: s_def SideBySide_new_fresh trackerInv_fresh)

lemma totalOfHeights_update_changed:
  assumes "i < length c"
  shows "(totalOfHeights (c[i := Some h]) \<noteq> totalOfHeights c) = (h \<noteq> storedHeight (c ! i))"
  using assms by (simp add: totalOfHeights_def storedHeight_update sum_list_update_changed)

lemma changeValue_reports:
  assumes "i < length c"
  shows "snd (changeValue (PrefixSumComputer (map storedHeight c)) i h) =
           (h \<noteq> storedHeight (c ! i))"
  using assms by (simp add: changeValue_valid)

lemma ss_update_effect:
  assumes "trackerInv (outputsTop s) (outputCollection s)" and "i < length (outputCollection s)"
  shows "fired (snd (ss_updateOutputHeight i h s)) =
           (if h \<noteq> storedHeight (outputCollection s ! i) then fired s @ [emptyEvent]
            else fired s)"
    and "layoutInfo (snd (ss_updateOutputHeight i h s)) =
           (if h \<noteq> storedHeight (outputCollection s ! i)
            then (layoutInfo s)\<lparr>outputHeight :=
                   (if outputFoldingState s = Collapsed then 0
                    else totalOfHeights ((outputCollection s)[i := Some h]))\<rparr>
            else layoutInfo s)"
  using assms
  by (simp_all add: ss_update_valid Let_def ss_layoutChange_full getTotalValue_def
      totalOfHeights_def)

lemma sbs_update_effect_original:
  assumes "trackerInv (originalOutputsTop s) (originalOutputCollection s)"
    and "trackerInv (modifiedOutputsTop s) (modifiedOutputCollection s)"
    and "i < length (originalOutputCollection s)"
  shows "fired (snd (sbs_updateOutputHeight True i h s)) =
           (if h \<noteq> storedHeight (originalOutputCollection s ! i) then fired s @ [emptyEvent]
            else fired s)"
    and "layoutInfo (snd (sbs_updateOutputHeight True i h s)) =
           (if h \<noteq> storedHeight (originalOutputCollection s ! i)
            then (layoutInfo s)\<lparr>outputHeight :=
                   (if outputFoldingState s = Collapsed then 0
                    else max (totalOfHeights ((originalOutputCollection s)[i := Some h]))
                             (totalOfHeights (modifiedOutputCollection s)))\<rparr>
            else layoutInfo s)"
    and "originalOutputCollection (snd (sbs_updateOutputHeight True i h s)) =
           (originalOutputCollection s)[i := Some h]"
    and "modifiedOutputCollection (snd (sbs_updateOutputHeight True i h s)) =
           modifiedOutputCollection s"
  using assms
  by (simp_all add: sbs_update_valid_original Let_def sbs_layoutChange_full getTotalValue_def
      totalOfHeights_def)

lemma sbs_update_effect_modified:
  assumes "trackerInv (originalOutputsTop s) (originalOutputCollection s)"
    and "trackerInv (modifiedOutputsTop s) (modifiedOutputCollection s)"
    and "i < length (modifiedOutputCollection s)"
  shows "fired (snd (sbs_updateOutputHeight False i h s)) =
           (if h \<noteq> storedHeight (modifiedOutputCollection s ! i) then fired s @ [emptyEvent]
            else fired s)"
    and "layoutInfo (snd (sbs_updateOutputHeight False i h s)) =
           (if h \<noteq> storedHeight (modifiedOutputCollection s ! i)
            then (layoutInfo s)\<lparr>outputHeight :=
                   (if outputFoldingState s = Collapsed then 0
                    else max (totalOfHeights (originalOutputCollection s))
                             (totalOfHeights ((modifiedOutputCollection s)[i := Some h])))\<rparr>
            else layoutInfo s)"
    and "originalOutputCollection (snd (sbs_updateOutputHeight False i h s)) =
           originalOutputCollection s"
    and "modifiedOutputCollection (snd (sbs_updateOutputHeight False i h s)) =
           (modifiedOutputCollection s)[i := Some h]"
  using assms
  by (simp_all add: sbs_update_valid_modified Let_def sbs_layoutChange_full getTotalValue_def
      totalOfHeights_def)

subsection \<open>Setters and events\<close>

lemma setter_events:
  "fired (set_outputHeight h s) =
     fired s @ [emptyEvent\<lparr>ev_outputEditor := Some True, ev_outputView := Some True\<rparr>]"
  "fired (set_outputStatusHeight h s) = fired s @ [emptyEvent]"
  "fired (set_editorHeight h s) = fired s @ [emptyEvent\<lparr>ev_editorHeight := Some True\<rparr>]"
  "fired (set_editorMargin h s) = fired s @ [emptyEvent]"
  "fired (set_metadataHeight h s) = fired s @ [emptyEvent\<lparr>ev_metadataEditor := Some True\<rparr>]"
  by (simp_all add: set_outputHeight_def set_outputStatusHeight_def set_editorHeight_def
      set_editorMargin_def set_metadataHeight_def fireLayoutChangeEvent_def)

lemma setter_layouts:
  "layoutInfo (set_outputHeight h s) = (layoutInfo s)\<lparr>outputHeight := h\<rparr>"
  "layoutInfo (set_outputStatusHeight h s) = (layoutInfo s)\<lparr>outputStatusHeight := h\<rparr>"
  "layoutInfo (set_editorHeight h s) = (layoutInfo s)\<lparr>editorHeight := h\<rparr>"
  "layoutInfo (set_editorMargin h s) = (layoutInfo s)\<lparr>editorMargin := h\<rparr>"
  "layoutInfo (set_metadataHeight h s) = (layoutInfo s)\<lparr>metadataHeight := h\<rparr>"
  by (simp_all add: set_outputHeight_def set_outputStatusHeight_def set_editorHeight_def
      set_editorMargin_def set_metadataHeight_def fireLayoutChangeEvent_def)

lemma flaggedRegions_values:
  "flaggedRegions (emptyEvent\<lparr>ev_outputEditor := Some True, ev_outputView := Some True\<rparr>) =
     [OutputEditor, OutputView]"
  "flaggedRegions emptyEvent = []"
  "flaggedRegions (emptyEvent\<lparr>ev_editorHeight := Some True\<rparr>) = [EditorHeight]"
  "flaggedRegions (emptyEvent\<lparr>ev_metadataEditor := Some True\<rparr>) = [MetadataEditor]"
  by (simp_all add: flaggedRegions_def emptyEvent_def flagged_def)

subsection \<open>The object behind the metadata snapshot\<close>

lemma update_fresh: "k \<notin> fst ` set obj \<Longrightarrow> AList.update k v obj = obj @ [(k, v)]"
  by (induction obj) auto









subsection \<open>The width of the layout record\<close>

lemma totalHeight_plus_width:
  "totalHeight s + width (layoutInfo s) = sumOfAllFields (layoutInfo s)"
  by (simp add: totalHeight_def sumOfAllFields_def)

lemma base_exec_width: "width (layoutInfo (base_exec c s)) = width (layoutInfo s)"
  by (cases c) (simp_all add: set_outputHeight_def set_outputStatusHeight_def
      set_editorHeight_def set_editorMargin_def set_metadataHeight_def onDidChangeLayout_def
      fireLayoutChangeEvent_def)

lemma ss_layoutChange_width: "width (layoutInfo (ss_layoutChange s)) = width (layoutInfo s)"
  by (simp add: ss_layoutChange_def ss_ensureOutputsTop_def ss_getOutputTotalHeight_def
      Let_def split: prod.splits)

lemma ss_update_width:
  "width (layoutInfo (snd (ss_updateOutputHeight i h s))) = width (layoutInfo s)"
proof -
  obtain t where t: "ensureTop (outputsTop s) (outputCollection s) = Some t"
    using ensureTop_Some by blast
  show ?thesis
    by (simp add: ss_updateOutputHeight_def ss_ensureOutputsTop_def t Let_def
        ss_layoutChange_width split: prod.splits)
qed

lemma ss_exec_width: "width (layoutInfo (snd (ss_exec c s))) = width (layoutInfo s)"
  by (cases c)
    (simp_all add: base_exec_width ss_update_width ss_layoutChange_width
      ss_getOutputOffsetInContainer_def ss_getOutputTotalHeight_def ss_ensureOutputsTop_def
      Let_def split: option.splits)

lemma ss_run_width: "width (layoutInfo (ss_run calls s)) = width (layoutInfo s)"
  by (induction calls rule: rev_induct) (simp_all add: ss_run_def ss_exec_width)

lemma sbs_layoutChange_width: "width (layoutInfo (sbs_layoutChange s)) = width (layoutInfo s)"
  by (simp add: sbs_layoutChange_def sbs_ensureOutputsTop_eq sbs_getOutputTotalHeight_def
      Let_def split: prod.splits)

lemma sbs_update_width:
  "width (layoutInfo (snd (sbs_updateOutputHeight b i h s))) = width (layoutInfo s)"
proof -
  obtain t1 where t1: "ensureTop (originalOutputsTop s) (originalOutputCollection s) = Some t1"
    using ensureTop_Some by blast
  obtain t2 where t2: "ensureTop (modifiedOutputsTop s) (modifiedOutputCollection s) = Some t2"
    using ensureTop_Some by blast
  show ?thesis
    by (simp add: sbs_updateOutputHeight_def sbs_ensureOriginalOutputsTop_def
        sbs_ensureModifiedOutputsTop_def t1 t2 Let_def sbs_layoutChange_width
        split: prod.splits)
qed

lemma sbs_exec_width: "width (layoutInfo (snd (sbs_exec c s))) = width (layoutInfo s)"
  by (cases c)
    (simp_all add: base_exec_width sbs_update_width sbs_layoutChange_width
      sbs_getOutputOffsetInContainer_def sbs_getOutputTotalHeight_def sbs_ensureOutputsTop_eq
      sbs_ensureOriginalOutputsTop_def sbs_ensureModifiedOutputsTop_def
      Let_def split: option.splits)

lemma sbs_run_width: "width (layoutInfo (sbs_run calls s)) = width (layoutInfo s)"
  by (induction calls rule: rev_induct) (simp_all add: sbs_run_def sbs_exec_width)

subsection \<open>The layout record\<close>

text \<open>
  C5. In every state that a view model of either variant reaches from its constructor by
  public calls, the \<^verbatim>\<open>totalHeight\<close> getter returns the sum of all fields of the layout
  record. (The getter adds the seven vertical measures; the eighth field, the width, is
  \<open>0\<close> from the constructor on, since no call writes it.)
\<close>

theorem totalHeight_is_sum_of_all_fields:
  fixes host :: "('v, 'o, 'e) Host" and d :: NotebookTextModel
    and original' modified' :: "('v, 'o) NotebookCellTextModel" and type :: CellDiffType
    and calls' :: "SideBySideCall list"
  defines "s' \<equiv> sbs_run calls' (SideBySide_new host d original' modified' type)"
  shows "(SingleSide_new original modified = Inr s0 \<longrightarrow>
            totalHeight (ss_run calls s0) = sumOfAllFields (layoutInfo (ss_run calls s0)))
       \<and> totalHeight s' = sumOfAllFields (layoutInfo s')"
proof -
  have "totalHeight (ss_run calls s0) = sumOfAllFields (layoutInfo (ss_run calls s0))"
    if new: "SingleSide_new original modified = Inr s0"
  proof -
    from new have "width (layoutInfo s0) = 0"
      by (auto simp: SingleSide_new_def initialLayoutInfo_def split: option.splits)
    then have "width (layoutInfo (ss_run calls s0)) = 0"
      by (simp add: ss_run_width)
    then show ?thesis
      using totalHeight_plus_width [of "ss_run calls s0"] by simp
  qed
  moreover have "totalHeight s' = sumOfAllFields (layoutInfo s')"
  proof -
    have "width (layoutInfo s') = 0"
      by (simp add: s'_def sbs_run_width SideBySide_new_def initialLayoutInfo_def)
    then show ?thesis
      using totalHeight_plus_width [of s'] by simp
  qed
  ultimately show ?thesis by simp
qed

theorem totalHeight_is_sum_of_all_fields_witness:
  "SingleSide_new (Some \<lparr>metadata = None, language = (), outputs = [(), ()]\<rparr>) None =
     Inr \<lparr>layoutInfo = initialLayoutInfo, metadataFoldingState = Collapsed,
          outputFoldingState = Collapsed, fired = [],
          outputCollection = [None, None], outputsTop = None\<rparr>
   \<and> totalHeight
        (ss_run [SS_base (Set_editorHeight 100), SS_base (Set_outputFoldingState Expanded),
                 SS_updateOutputHeight 0 40]
           \<lparr>layoutInfo = initialLayoutInfo, metadataFoldingState = Collapsed,
            outputFoldingState = Collapsed, fired = [],
            outputCollection = [None, None], outputsTop = None\<rparr>) = 222
   \<and> sumOfAllFields (layoutInfo
        (ss_run [SS_base (Set_editorHeight 100), SS_base (Set_outputFoldingState Expanded),
                 SS_updateOutputHeight 0 40]
           \<lparr>layoutInfo = initialLayoutInfo, metadataFoldingState = Collapsed,
            outputFoldingState = Collapsed, fired = [],
            outputCollection = [None, None], outputsTop = None\<rparr>)) = 222"
proof -
  let ?s0 = "\<lparr>layoutInfo = initialLayoutInfo, metadataFoldingState = Collapsed,
          outputFoldingState = Collapsed, fired = [],
          outputCollection = [None, None], outputsTop = None\<rparr>"
  let ?calls = "[SS_base (Set_editorHeight 100), SS_base (Set_outputFoldingState Expanded),
                 SS_updateOutputHeight 0 40]"
  let ?host = "\<lparr>JSON_stringify = (\<lambda>obj. []), format = (\<lambda>content. ()),
      applyEdits = (\<lambda>content edits. content), hashText = (\<lambda>content. 0),
      hashOutputs = (\<lambda>os. 0)\<rparr> :: (unit, unit, unit) Host"
  have new: "SingleSide_new (Some \<lparr>metadata = None, language = (), outputs = [(), ()]\<rparr>)
      (None :: (unit, unit) NotebookCellTextModel option) = Inr ?s0"
    by (simp add: SingleSide_new_def)
  have layout: "layoutInfo (ss_run ?calls ?s0) =
      initialLayoutInfo\<lparr>editorHeight := 100, outputHeight := 40\<rparr>"
    by (simp add: ss_run_def set_editorHeight_def fireLayoutChangeEvent_def
        ss_updateOutputHeight_def ss_ensureOutputsTop_def ensureTop_def
        toUint32_def changeValue_def getTotalValue_def ss_layoutChange_def Let_def
        ss_getOutputTotalHeight_def initialLayoutInfo_def)
  have total: "totalHeight (ss_run ?calls ?s0) = 222"
    unfolding totalHeight_def layout by (simp add: initialLayoutInfo_def)
  show ?thesis
    using new total
      totalHeight_is_sum_of_all_fields [where original = "Some \<lparr>metadata = None, language = (), outputs = [(), ()]\<rparr>"
        and modified = None and ?s0.0 = ?s0 and calls = ?calls and host = ?host
        and d = "\<lparr>transientMetadata = (\<lambda>key. False), transientOutputs = False\<rparr>"
        and original' = "\<lparr>metadata = None, language = (), outputs = [()]\<rparr>"
        and modified' = "\<lparr>metadata = None, language = (), outputs = [()]\<rparr>"
        and type = TypeModified and calls' = "[]"]
    by simp
qed

subsection \<open>Offsets of the single-side model\<close>

text \<open>
  C1. In a single-side view model, after construction and any sequence of public calls
  (in particular any sequence of \<^verbatim>\<open>updateOutputHeight\<close> calls), the offset of a valid
  index \<open>i\<close> is the sum over the positions \<open>0..i-1\<close> of the height most recently set
  there, a position never set counting as \<open>0\<close>; the offset of index \<open>0\<close> is \<open>0\<close>.
  Each position contributes its latest height once, so no update is counted twice.
\<close>

theorem ss_offset_sums_latest_heights:
  assumes "SingleSide_new original modified = Inr s0"
    and "i < length (outputCollection s0)"
  shows "fst (ss_getOutputOffsetInContainer i (ss_run calls s0)) =
           Inr (sum_list (map (ss_latestHeight calls) [0..<i]))
         \<and> fst (ss_getOutputOffsetInContainer 0 (ss_run calls s0)) = Inr 0"
proof -
  let ?s = "ss_run calls s0"
  obtain n where fresh: "outputsTop s0 = None" "outputCollection s0 = replicate n None"
    using SingleSide_new_fresh [OF assms(1)] by blast
  have inv0: "trackerInv (outputsTop s0) (outputCollection s0)"
    by (simp add: fresh trackerInv_fresh)
  have unset: "list_all (\<lambda>c. c = None) (outputCollection s0)"
    by (simp add: fresh list_all_iff)
  have inv: "trackerInv (outputsTop ?s) (outputCollection ?s)"
    using inv0 by (rule ss_run_inv)
  have len: "length (outputCollection ?s) = length (outputCollection s0)"
    by (rule ss_run_length)
  have latest: "storedHeight (outputCollection ?s ! j) = ss_latestHeight calls j" if "j < i" for j
    using unset that assms(2) by (simp add: ss_run_latest)
  have "fst (ss_getOutputOffsetInContainer i ?s) =
          Inr (sum_list (map storedHeight (take i (outputCollection ?s))))"
    using inv assms(2) len by (simp add: ss_offset_valid)
  also have "map storedHeight (take i (outputCollection ?s)) =
               map (\<lambda>j. storedHeight (outputCollection ?s ! j)) [0..<i]"
    using assms(2) len by (simp add: heights_take_upt)
  also have "\<dots> = map (ss_latestHeight calls) [0..<i]"
    using latest by simp
  finally have first: "fst (ss_getOutputOffsetInContainer i ?s) =
      Inr (sum_list (map (ss_latestHeight calls) [0..<i]))" .
  have "fst (ss_getOutputOffsetInContainer 0 ?s) =
          Inr (sum_list (map storedHeight (take 0 (outputCollection ?s))))"
    using inv assms(2) len by (intro ss_offset_valid) auto
  then have second: "fst (ss_getOutputOffsetInContainer 0 ?s) = Inr 0" by simp
  from first second show ?thesis by simp
qed

theorem ss_offset_sums_latest_heights_witness:
  "SingleSide_new (Some \<lparr>metadata = None, language = (), outputs = [(), (), ()]\<rparr>) None =
     Inr \<lparr>layoutInfo = initialLayoutInfo, metadataFoldingState = Collapsed,
          outputFoldingState = Collapsed, fired = [],
          outputCollection = [None, None, None], outputsTop = None\<rparr>
   \<and> fst (ss_getOutputOffsetInContainer 2
        (ss_run [SS_updateOutputHeight 0 10, SS_updateOutputHeight 1 20,
                 SS_getOutputTotalHeight, SS_updateOutputHeight 0 5,
                 SS_updateOutputHeight 7 99]
           \<lparr>layoutInfo = initialLayoutInfo, metadataFoldingState = Collapsed,
            outputFoldingState = Collapsed, fired = [],
            outputCollection = [None, None, None], outputsTop = None\<rparr>)) = Inr 25"
proof -
  let ?c = "\<lparr>metadata = None, language = (), outputs = [(), (), ()]\<rparr>"
  let ?s0 = "\<lparr>layoutInfo = initialLayoutInfo, metadataFoldingState = Collapsed,
          outputFoldingState = Collapsed, fired = [],
          outputCollection = [None, None, None], outputsTop = None\<rparr>"
  have new: "SingleSide_new (Some ?c) (None :: (unit, unit) NotebookCellTextModel option) = Inr ?s0"
    by (simp add: SingleSide_new_def numeral_3_eq_3)
  have valid: "2 < length (outputCollection ?s0)" by simp
  have latest: "sum_list (map (ss_latestHeight [SS_updateOutputHeight 0 10,
      SS_updateOutputHeight 1 20, SS_getOutputTotalHeight, SS_updateOutputHeight 0 5,
      SS_updateOutputHeight 7 99]) [0..<2]) = 25"
    by code_simp
  show ?thesis
    using new latest ss_offset_sums_latest_heights [OF new valid,
        of "[SS_updateOutputHeight 0 10, SS_updateOutputHeight 1 20,
                 SS_getOutputTotalHeight, SS_updateOutputHeight 0 5,
                 SS_updateOutputHeight 7 99]"]
    by simp
qed

subsection \<open>Errors\<close>

text \<open>
  C10. In both variants, \<^verbatim>\<open>updateOutputHeight\<close> with an index at or beyond the length of
  the collection throws before it writes anything: the state after the call is the state
  before it, with its collections, its trackers and its layout record.
\<close>

theorem update_out_of_range_atomic:
  "(length (outputCollection s) \<le> i \<longrightarrow>
      ss_updateOutputHeight i h s = (Inl OutputIndexOutOfRange, s))
   \<and> (length (originalOutputCollection s') \<le> i \<longrightarrow>
      sbs_updateOutputHeight True i h s' = (Inl OutputIndexOutOfRange, s'))
   \<and> (length (modifiedOutputCollection s') \<le> i \<longrightarrow>
      sbs_updateOutputHeight False i h s' = (Inl OutputIndexOutOfRange, s'))"
  by (simp add: ss_updateOutputHeight_def sbs_updateOutputHeight_def)

theorem update_out_of_range_atomic_witness:
  "ss_updateOutputHeight 3 7
     \<lparr>layoutInfo = initialLayoutInfo, metadataFoldingState = Collapsed,
      outputFoldingState = Expanded, fired = [],
      outputCollection = [Some 4, None, None], outputsTop = None\<rparr>
   = (Inl OutputIndexOutOfRange,
      \<lparr>layoutInfo = initialLayoutInfo, metadataFoldingState = Collapsed,
       outputFoldingState = Expanded, fired = [],
       outputCollection = [Some 4, None, None], outputsTop = None\<rparr>)
   \<and> sbs_updateOutputHeight True 3 7
     \<lparr>layoutInfo = initialLayoutInfo, metadataFoldingState = Collapsed,
      outputFoldingState = Expanded, fired = [],
      originalOutputCollection = [None, None], originalOutputsTop = None,
      modifiedOutputCollection = [None], modifiedOutputsTop = None\<rparr>
   = (Inl OutputIndexOutOfRange,
      \<lparr>layoutInfo = initialLayoutInfo, metadataFoldingState = Collapsed,
       outputFoldingState = Expanded, fired = [],
       originalOutputCollection = [None, None], originalOutputsTop = None,
       modifiedOutputCollection = [None], modifiedOutputsTop = None\<rparr>)
   \<and> sbs_updateOutputHeight False 3 7
     \<lparr>layoutInfo = initialLayoutInfo, metadataFoldingState = Collapsed,
      outputFoldingState = Expanded, fired = [],
      originalOutputCollection = [None, None], originalOutputsTop = None,
      modifiedOutputCollection = [None], modifiedOutputsTop = None\<rparr>
   = (Inl OutputIndexOutOfRange,
      \<lparr>layoutInfo = initialLayoutInfo, metadataFoldingState = Collapsed,
       outputFoldingState = Expanded, fired = [],
       originalOutputCollection = [None, None], originalOutputsTop = None,
       modifiedOutputCollection = [None], modifiedOutputsTop = None\<rparr>)"
  using update_out_of_range_atomic [of
      "\<lparr>layoutInfo = initialLayoutInfo, metadataFoldingState = Collapsed,
      outputFoldingState = Expanded, fired = [],
      outputCollection = [Some 4, None, None], outputsTop = None\<rparr>" 3 7
      "\<lparr>layoutInfo = initialLayoutInfo, metadataFoldingState = Collapsed,
      outputFoldingState = Expanded, fired = [],
      originalOutputCollection = [None, None], originalOutputsTop = None,
      modifiedOutputCollection = [None], modifiedOutputsTop = None\<rparr>"]
  by simp

text \<open>
  C2. In both variants, \<^verbatim>\<open>updateOutputHeight\<close> and \<^verbatim>\<open>getOutputOffsetInContainer\<close> called
  with an index at or beyond the length of the collection of the side addressed throw
  \<^verbatim>\<open>'Output index out of range!'\<close>; with an index below the length they throw nothing,
  in any state of the model. No public call of a view model throws any other error.
\<close>

theorem out_of_range_only_error:
  "fst (ss_updateOutputHeight i h s) =
     (if length (outputCollection s) \<le> i then Inl OutputIndexOutOfRange else Inr ())
   \<and> thrown (fst (ss_getOutputOffsetInContainer i s)) =
     (if length (outputCollection s) \<le> i then Some OutputIndexOutOfRange else None)
   \<and> fst (sbs_updateOutputHeight b i h s') =
     (if length (if b then originalOutputCollection s' else modifiedOutputCollection s') \<le> i
      then Inl OutputIndexOutOfRange else Inr ())
   \<and> thrown (fst (sbs_getOutputOffsetInContainer b i s')) =
     (if length (if b then originalOutputCollection s' else modifiedOutputCollection s') \<le> i
      then Some OutputIndexOutOfRange else None)
   \<and> (fst (ss_exec c s) = None \<or> fst (ss_exec c s) = Some OutputIndexOutOfRange)
   \<and> (fst (sbs_exec c' s') = None \<or> fst (sbs_exec c' s') = Some OutputIndexOutOfRange)"
proof -
  have "fst (ss_exec c s) = None \<or> fst (ss_exec c s) = Some OutputIndexOutOfRange"
    using ss_exec_no_TypeError [of c s] by (cases "fst (ss_exec c s)") (auto intro: error.exhaust)
  moreover have "fst (sbs_exec c' s') = None \<or> fst (sbs_exec c' s') = Some OutputIndexOutOfRange"
    using sbs_exec_no_TypeError [of c' s'] by (cases "fst (sbs_exec c' s')") (auto intro: error.exhaust)
  ultimately show ?thesis
    by (simp only: ss_update_result ss_offset_thrown sbs_update_result sbs_offset_thrown simp_thms)
qed

theorem out_of_range_only_error_witness:
  "fst (ss_updateOutputHeight 2 7
     \<lparr>layoutInfo = initialLayoutInfo, metadataFoldingState = Collapsed,
      outputFoldingState = Expanded, fired = [],
      outputCollection = [None, None], outputsTop = None\<rparr>) = Inl OutputIndexOutOfRange
   \<and> thrown (fst (ss_getOutputOffsetInContainer 2
     \<lparr>layoutInfo = initialLayoutInfo, metadataFoldingState = Collapsed,
      outputFoldingState = Expanded, fired = [],
      outputCollection = [None, None], outputsTop = None\<rparr>)) = Some OutputIndexOutOfRange
   \<and> fst (sbs_updateOutputHeight False 2 7
     \<lparr>layoutInfo = initialLayoutInfo, metadataFoldingState = Collapsed,
      outputFoldingState = Expanded, fired = [],
      originalOutputCollection = [None, None, None], originalOutputsTop = None,
      modifiedOutputCollection = [None], modifiedOutputsTop = None\<rparr>) = Inl OutputIndexOutOfRange
   \<and> thrown (fst (sbs_getOutputOffsetInContainer False 2
     \<lparr>layoutInfo = initialLayoutInfo, metadataFoldingState = Collapsed,
      outputFoldingState = Expanded, fired = [],
      originalOutputCollection = [None, None, None], originalOutputsTop = None,
      modifiedOutputCollection = [None], modifiedOutputsTop = None\<rparr>)) = Some OutputIndexOutOfRange"
  using out_of_range_only_error [where i = 2 and h = 7 and b = False
      and s = "\<lparr>layoutInfo = initialLayoutInfo, metadataFoldingState = Collapsed,
      outputFoldingState = Expanded, fired = [],
      outputCollection = [None, None], outputsTop = None\<rparr>"
      and s' = "\<lparr>layoutInfo = initialLayoutInfo, metadataFoldingState = Collapsed,
      outputFoldingState = Expanded, fired = [],
      originalOutputCollection = [None, None, None], originalOutputsTop = None,
      modifiedOutputCollection = [None], modifiedOutputsTop = None\<rparr>"
      and c = SS_layoutChange and c' = SBS_layoutChange]
  by simp

subsection \<open>The trackers\<close>

text \<open>
  C8. In every state that a view model reaches from its constructor by public calls,
  each tracker is absent or holds exactly the heights of its collection (a slot never
  written as \<open>0\<close>). The constructor leaves the trackers absent; the \<^verbatim>\<open>ensure\<close> methods
  build them, with exactly those heights; and no public call throws the \<open>TypeError\<close> of
  a method call on an absent tracker.
\<close>

theorem trackers_absent_or_exact:
  fixes host :: "('v, 'o, 'e) Host" and d :: NotebookTextModel
    and original' modified' :: "('v, 'o) NotebookCellTextModel" and type :: CellDiffType
    and calls' :: "SideBySideCall list"
  defines "s' \<equiv> sbs_run calls' (SideBySide_new host d original' modified' type)"
  shows "(SingleSide_new original modified = Inr s0 \<longrightarrow>
            outputsTop s0 = None
          \<and> trackerConsistent (outputsTop (ss_run calls s0)) (outputCollection (ss_run calls s0))
          \<and> outputsTop (ss_ensureOutputsTop (ss_run calls s0)) =
              Some (PrefixSumComputer (map storedHeight (outputCollection (ss_run calls s0))))
          \<and> fst (ss_exec c (ss_run calls s0)) \<noteq> Some TypeError)
       \<and> originalOutputsTop (SideBySide_new host d original' modified' type) = None
       \<and> modifiedOutputsTop (SideBySide_new host d original' modified' type) = None
       \<and> trackerConsistent (originalOutputsTop s') (originalOutputCollection s')
       \<and> trackerConsistent (modifiedOutputsTop s') (modifiedOutputCollection s')
       \<and> originalOutputsTop (sbs_ensureOriginalOutputsTop s') =
           Some (PrefixSumComputer (map storedHeight (originalOutputCollection s')))
       \<and> modifiedOutputsTop (sbs_ensureModifiedOutputsTop s') =
           Some (PrefixSumComputer (map storedHeight (modifiedOutputCollection s')))
       \<and> fst (sbs_exec c' s') \<noteq> Some TypeError"
proof -
  have single: "outputsTop s0 = None
          \<and> trackerConsistent (outputsTop (ss_run calls s0)) (outputCollection (ss_run calls s0))
          \<and> outputsTop (ss_ensureOutputsTop (ss_run calls s0)) =
              Some (PrefixSumComputer (map storedHeight (outputCollection (ss_run calls s0))))
          \<and> fst (ss_exec c (ss_run calls s0)) \<noteq> Some TypeError"
    if new: "SingleSide_new original modified = Inr s0"
  proof -
    have inv: "trackerInv (outputsTop (ss_run calls s0)) (outputCollection (ss_run calls s0))"
      using new by (rule ss_reachable_inv)
    show ?thesis
      using SingleSide_new_fresh(1) [OF new] inv
      by (simp add: trackerInv_consistent ss_ensureOutputsTop_def ensureTop_inv
          ss_exec_no_TypeError)
  qed
  have inv1: "trackerInv (originalOutputsTop s') (originalOutputCollection s')"
    and inv2: "trackerInv (modifiedOutputsTop s') (modifiedOutputCollection s')"
    unfolding s'_def by (rule sbs_reachable_inv)+
  from single inv1 inv2 show ?thesis
    by (simp add: SideBySide_new_fresh trackerInv_consistent sbs_ensureOriginalOutputsTop_def
        sbs_ensureModifiedOutputsTop_def ensureTop_inv sbs_exec_no_TypeError)
qed

theorem trackers_absent_or_exact_witness:
  "SingleSide_new (Some \<lparr>metadata = None, language = (), outputs = [(), ()]\<rparr>) None =
     Inr \<lparr>layoutInfo = initialLayoutInfo, metadataFoldingState = Collapsed,
          outputFoldingState = Collapsed, fired = [],
          outputCollection = [None, None], outputsTop = None\<rparr>
   \<and> trackerConsistent
        (outputsTop (ss_run [SS_updateOutputHeight 0 8]
           \<lparr>layoutInfo = initialLayoutInfo, metadataFoldingState = Collapsed,
            outputFoldingState = Collapsed, fired = [],
            outputCollection = [None, None], outputsTop = None\<rparr>))
        (outputCollection (ss_run [SS_updateOutputHeight 0 8]
           \<lparr>layoutInfo = initialLayoutInfo, metadataFoldingState = Collapsed,
            outputFoldingState = Collapsed, fired = [],
            outputCollection = [None, None], outputsTop = None\<rparr>))
   \<and> outputsTop (ss_run [SS_updateOutputHeight 0 8]
           \<lparr>layoutInfo = initialLayoutInfo, metadataFoldingState = Collapsed,
            outputFoldingState = Collapsed, fired = [],
            outputCollection = [None, None], outputsTop = None\<rparr>)
       = Some (PrefixSumComputer [8, 0])
   \<and> fst (ss_exec (SS_getOutputOffsetInContainer 0)
          (ss_run [SS_updateOutputHeight 0 8]
           \<lparr>layoutInfo = initialLayoutInfo, metadataFoldingState = Collapsed,
            outputFoldingState = Collapsed, fired = [],
            outputCollection = [None, None], outputsTop = None\<rparr>)) = None"
proof -
  let ?s0 = "\<lparr>layoutInfo = initialLayoutInfo, metadataFoldingState = Collapsed,
          outputFoldingState = Collapsed, fired = [],
          outputCollection = [None, None], outputsTop = None\<rparr>"
  let ?host = "\<lparr>JSON_stringify = (\<lambda>obj. []), format = (\<lambda>content. ()),
      applyEdits = (\<lambda>content edits. content), hashText = (\<lambda>text. 0),
      hashOutputs = (\<lambda>os. 0)\<rparr> :: (unit, unit, unit) Host"
  have new: "SingleSide_new (Some \<lparr>metadata = None, language = (), outputs = [(), ()]\<rparr>)
      (None :: (unit, unit) NotebookCellTextModel option) = Inr ?s0"
    by (simp add: SingleSide_new_def)
  have run: "ss_run [SS_updateOutputHeight 0 8] ?s0 =
      \<lparr>layoutInfo = initialLayoutInfo, metadataFoldingState = Collapsed,
          outputFoldingState = Collapsed, fired = [emptyEvent],
          outputCollection = [Some 8, None], outputsTop = Some (PrefixSumComputer [8, 0])\<rparr>"
    by (simp add: ss_run_def ss_updateOutputHeight_def ss_ensureOutputsTop_def ensureTop_def
        toUint32_def changeValue_def getTotalValue_def ss_layoutChange_def Let_def
        ss_getOutputTotalHeight_def initialLayoutInfo_def)
  have ok: "fst (ss_exec (SS_getOutputOffsetInContainer 0) (ss_run [SS_updateOutputHeight 0 8] ?s0))
      = None"
    by (simp add: run ss_getOutputOffsetInContainer_def ss_ensureOutputsTop_def ensureTop_def
        Let_def thrown_def)
  show ?thesis
    using new run ok
      trackers_absent_or_exact [where original = "Some \<lparr>metadata = None, language = (), outputs = [(), ()]\<rparr>"
        and modified = None and ?s0.0 = ?s0 and calls = "[SS_updateOutputHeight 0 8]"
        and c = "SS_getOutputOffsetInContainer 0" and host = ?host
        and d = "\<lparr>transientMetadata = (\<lambda>key. False), transientOutputs = False\<rparr>"
        and original' = "\<lparr>metadata = None, language = (), outputs = [()]\<rparr>"
        and modified' = "\<lparr>metadata = None, language = (), outputs = [()]\<rparr>"
        and type = TypeModified and calls' = "[]" and c' = SBS_getOutputTotalHeight]
    by simp
qed

subsection \<open>Total output height\<close>

text \<open>
  C3. In a side-by-side view model reached from its constructor by public calls, after an
  update of one side at a valid index \<^verbatim>\<open>getOutputTotalHeight\<close> returns the maximum of
  the total of the original-side heights and the total of the modified-side heights, the
  update having written the one slot of the one side. This one value is the output
  height of both sides: a layout change triggered by the update stores it as the output
  height of the layout record when the output region is expanded (and stores \<open>0\<close> when
  it is collapsed).
\<close>

theorem sbs_total_is_max_after_update:
  fixes host :: "('v, 'o, 'e) Host" and d :: NotebookTextModel
    and original modified :: "('v, 'o) NotebookCellTextModel" and type :: CellDiffType
    and calls :: "SideBySideCall list" and b :: bool and i h :: nat
  defines "s \<equiv> sbs_run calls (SideBySide_new host d original modified type)"
  defines "s' \<equiv> snd (sbs_updateOutputHeight b i h s)"
  assumes valid: "i < length (if b then originalOutputCollection s else modifiedOutputCollection s)"
  shows "fst (sbs_getOutputTotalHeight s') =
           max (totalOfHeights (originalOutputCollection s'))
               (totalOfHeights (modifiedOutputCollection s'))
       \<and> originalOutputCollection s' =
           (if b then (originalOutputCollection s)[i := Some h] else originalOutputCollection s)
       \<and> modifiedOutputCollection s' =
           (if b then modifiedOutputCollection s else (modifiedOutputCollection s)[i := Some h])
       \<and> outputHeight (layoutInfo s') =
           (if h = storedHeight ((if b then originalOutputCollection s
                                  else modifiedOutputCollection s) ! i)
            then outputHeight (layoutInfo s)
            else if outputFoldingState s = Collapsed then 0
            else max (totalOfHeights (originalOutputCollection s'))
                     (totalOfHeights (modifiedOutputCollection s')))"
proof -
  have inv: "trackerInv (originalOutputsTop s) (originalOutputCollection s)"
    "trackerInv (modifiedOutputsTop s) (modifiedOutputCollection s)"
    unfolding s_def by (rule sbs_reachable_inv)+
  have inv': "trackerInv (originalOutputsTop s') (originalOutputCollection s')
       \<and> trackerInv (modifiedOutputsTop s') (modifiedOutputCollection s')"
    unfolding s'_def using inv by (rule sbs_update_inv)
  then have total: "fst (sbs_getOutputTotalHeight s') =
           max (totalOfHeights (originalOutputCollection s'))
               (totalOfHeights (modifiedOutputCollection s'))"
    by (simp add: sbs_total_valid)
  show ?thesis
  proof (cases b)
    case True
    with valid have v: "i < length (originalOutputCollection s)" by simp
    show ?thesis
      using total True
      by (simp add: s'_def sbs_update_effect_original [OF inv v])
  next
    case False
    with valid have v: "i < length (modifiedOutputCollection s)" by simp
    show ?thesis
      using total False
      by (simp add: s'_def sbs_update_effect_modified [OF inv v])
  qed
qed


theorem sbs_total_is_max_after_update_witness:
  "0 < length (modifiedOutputCollection
         (sbs_run [SBS_updateOutputHeight True 0 10]
            (SideBySide_new
               \<lparr>JSON_stringify = (\<lambda>obj. []), format = (\<lambda>content. ()),
                applyEdits = (\<lambda>content edits. content), hashText = (\<lambda>text. 0),
                hashOutputs = (\<lambda>os. int (length os))\<rparr>
               \<lparr>transientMetadata = (\<lambda>key. False), transientOutputs = False\<rparr>
               \<lparr>metadata = None, language = (), outputs = [()]\<rparr>
               \<lparr>metadata = None, language = (), outputs = [(), ()]\<rparr>
               TypeModified)))
   \<and> fst (sbs_getOutputTotalHeight
        (snd (sbs_updateOutputHeight False 0 20
          (sbs_run [SBS_updateOutputHeight True 0 10]
            (SideBySide_new
               \<lparr>JSON_stringify = (\<lambda>obj. []), format = (\<lambda>content. ()),
                applyEdits = (\<lambda>content edits. content), hashText = (\<lambda>text. 0),
                hashOutputs = (\<lambda>os. int (length os))\<rparr>
               \<lparr>transientMetadata = (\<lambda>key. False), transientOutputs = False\<rparr>
               \<lparr>metadata = None, language = (), outputs = [()]\<rparr>
               \<lparr>metadata = None, language = (), outputs = [(), ()]\<rparr>
               TypeModified))))) = 20
   \<and> outputHeight (layoutInfo
        (snd (sbs_updateOutputHeight False 0 20
          (sbs_run [SBS_updateOutputHeight True 0 10]
            (SideBySide_new
               \<lparr>JSON_stringify = (\<lambda>obj. []), format = (\<lambda>content. ()),
                applyEdits = (\<lambda>content edits. content), hashText = (\<lambda>text. 0),
                hashOutputs = (\<lambda>os. int (length os))\<rparr>
               \<lparr>transientMetadata = (\<lambda>key. False), transientOutputs = False\<rparr>
               \<lparr>metadata = None, language = (), outputs = [()]\<rparr>
               \<lparr>metadata = None, language = (), outputs = [(), ()]\<rparr>
               TypeModified))))) = 20"
proof -
  let ?host = "\<lparr>JSON_stringify = (\<lambda>obj. []), format = (\<lambda>content. ()),
                applyEdits = (\<lambda>content edits. content), hashText = (\<lambda>text. 0),
                hashOutputs = (\<lambda>os. int (length os))\<rparr> :: (unit, unit, unit) Host"
  let ?d = "\<lparr>transientMetadata = (\<lambda>key. False), transientOutputs = False\<rparr>"
  let ?o = "\<lparr>metadata = None, language = (), outputs = [()]\<rparr>"
  let ?m = "\<lparr>metadata = None, language = (), outputs = [(), ()]\<rparr>"
  let ?s = "sbs_run [SBS_updateOutputHeight True 0 10] (SideBySide_new ?host ?d ?o ?m TypeModified)"
  have new: "SideBySide_new ?host ?d ?o ?m TypeModified =
      \<lparr>layoutInfo = initialLayoutInfo, metadataFoldingState = Collapsed,
       outputFoldingState = Expanded, fired = [],
       originalOutputCollection = [None], originalOutputsTop = None,
       modifiedOutputCollection = [None, None], modifiedOutputsTop = None\<rparr>"
    by (simp add: SideBySide_new_def sbs_checkMetadataIfModified_def
        sbs_checkIfOutputsModified_def numeral_2_eq_2)
  have run: "?s =
      \<lparr>layoutInfo = initialLayoutInfo\<lparr>outputHeight := 10\<rparr>, metadataFoldingState = Collapsed,
       outputFoldingState = Expanded, fired = [emptyEvent],
       originalOutputCollection = [Some 10],
       originalOutputsTop = Some (PrefixSumComputer [10]),
       modifiedOutputCollection = [None, None],
       modifiedOutputsTop = Some (PrefixSumComputer [0, 0])\<rparr>"
    by (simp add: new sbs_run_def sbs_updateOutputHeight_def sbs_ensureOriginalOutputsTop_def
        sbs_ensureModifiedOutputsTop_def sbs_ensureOutputsTop_def ensureTop_def
        toUint32_def changeValue_def getTotalValue_def sbs_layoutChange_def Let_def
        sbs_getOutputTotalHeight_def initialLayoutInfo_def)
  have valid: "0 < length (if False then originalOutputCollection ?s
                           else modifiedOutputCollection ?s)"
    by (simp add: run)
  show ?thesis
    using valid sbs_total_is_max_after_update [OF valid, of 20]
    by (simp add: run totalOfHeights_def storedHeight_def)
qed

text \<open>
  C4 (amended). In every reachable state, \<^verbatim>\<open>getOutputTotalHeight\<close> of a single-side
  view model returns the sum of the heights of its output collection, a slot never set
  counting as \<open>0\<close>; \<^verbatim>\<open>getOutputTotalHeight\<close> of a side-by-side view model returns the
  larger of the two sums of its original-side and its modified-side collection.
\<close>

theorem total_height_sum_or_max:
  fixes host :: "('v, 'o, 'e) Host" and d :: NotebookTextModel
    and original' modified' :: "('v, 'o) NotebookCellTextModel" and type :: CellDiffType
    and calls' :: "SideBySideCall list"
  defines "s' \<equiv> sbs_run calls' (SideBySide_new host d original' modified' type)"
  shows "(SingleSide_new original modified = Inr s0 \<longrightarrow>
            fst (ss_getOutputTotalHeight (ss_run calls s0)) =
              totalOfHeights (outputCollection (ss_run calls s0)))
       \<and> fst (sbs_getOutputTotalHeight s') =
           max (totalOfHeights (originalOutputCollection s'))
               (totalOfHeights (modifiedOutputCollection s'))"
proof -
  have "fst (ss_getOutputTotalHeight (ss_run calls s0)) =
          totalOfHeights (outputCollection (ss_run calls s0))"
    if "SingleSide_new original modified = Inr s0"
    using ss_reachable_inv [OF that] by (rule ss_total_valid)
  moreover have "fst (sbs_getOutputTotalHeight s') =
           max (totalOfHeights (originalOutputCollection s'))
               (totalOfHeights (modifiedOutputCollection s'))"
    unfolding s'_def by (intro sbs_total_valid sbs_reachable_inv)
  ultimately show ?thesis by simp
qed

theorem total_height_sum_or_max_witness:
  "SingleSide_new None (Some \<lparr>metadata = None, language = (), outputs = [(), (), ()]\<rparr>) =
     Inr \<lparr>layoutInfo = initialLayoutInfo, metadataFoldingState = Collapsed,
          outputFoldingState = Collapsed, fired = [],
          outputCollection = [None, None, None], outputsTop = None\<rparr>
   \<and> fst (ss_getOutputTotalHeight
        (ss_run [SS_updateOutputHeight 0 10, SS_updateOutputHeight 2 30, SS_updateOutputHeight 0 4]
           \<lparr>layoutInfo = initialLayoutInfo, metadataFoldingState = Collapsed,
            outputFoldingState = Collapsed, fired = [],
            outputCollection = [None, None, None], outputsTop = None\<rparr>)) = 34"
proof -
  let ?s0 = "\<lparr>layoutInfo = initialLayoutInfo, metadataFoldingState = Collapsed,
          outputFoldingState = Collapsed, fired = [],
          outputCollection = [None, None, None], outputsTop = None\<rparr>"
  let ?calls = "[SS_updateOutputHeight 0 10, SS_updateOutputHeight 2 30, SS_updateOutputHeight 0 4]"
  let ?host = "\<lparr>JSON_stringify = (\<lambda>obj. []), format = (\<lambda>content. ()),
      applyEdits = (\<lambda>content edits. content), hashText = (\<lambda>text. 0),
      hashOutputs = (\<lambda>os. 0)\<rparr> :: (unit, unit, unit) Host"
  have new: "SingleSide_new (None :: (unit, unit) NotebookCellTextModel option)
      (Some \<lparr>metadata = None, language = (), outputs = [(), (), ()]\<rparr>) = Inr ?s0"
    by (simp add: SingleSide_new_def numeral_3_eq_3)
  have coll: "outputCollection (ss_run ?calls ?s0) = [Some 4, None, Some 30]"
    by (simp add: ss_run_def ss_update_collection)
  show ?thesis
    using new coll
      total_height_sum_or_max [where original = None
        and modified = "Some \<lparr>metadata = None, language = (), outputs = [(), (), ()]\<rparr>"
        and ?s0.0 = ?s0 and calls = ?calls and host = ?host
        and d = "\<lparr>transientMetadata = (\<lambda>key. False), transientOutputs = False\<rparr>"
        and original' = "\<lparr>metadata = None, language = (), outputs = [()]\<rparr>"
        and modified' = "\<lparr>metadata = None, language = (), outputs = [()]\<rparr>"
        and type = TypeModified and calls' = "[]"]
    by (simp add: totalOfHeights_def storedHeight_def)
qed

text \<open>
  C4 as stated fails for the side-by-side view model. A model of two cells with one
  output each, as its constructor leaves it, is given the height 10 on the original
  side and 20 on the modified side: the total returned is 20, which is neither the sum
  30 of all the heights nor the sum 10 of the heights of the original cell.
\<close>

theorem sbs_total_not_sum_of_heights:
  "fst (sbs_getOutputTotalHeight
     (sbs_run [SBS_updateOutputHeight True 0 10, SBS_updateOutputHeight False 0 20]
        \<lparr>layoutInfo = initialLayoutInfo, metadataFoldingState = Collapsed,
         outputFoldingState = Collapsed, fired = [],
         originalOutputCollection = [None], originalOutputsTop = None,
         modifiedOutputCollection = [None], modifiedOutputsTop = None\<rparr>))
   \<noteq> totalOfHeights (originalOutputCollection
     (sbs_run [SBS_updateOutputHeight True 0 10, SBS_updateOutputHeight False 0 20]
        \<lparr>layoutInfo = initialLayoutInfo, metadataFoldingState = Collapsed,
         outputFoldingState = Collapsed, fired = [],
         originalOutputCollection = [None], originalOutputsTop = None,
         modifiedOutputCollection = [None], modifiedOutputsTop = None\<rparr>)
      @ modifiedOutputCollection
     (sbs_run [SBS_updateOutputHeight True 0 10, SBS_updateOutputHeight False 0 20]
        \<lparr>layoutInfo = initialLayoutInfo, metadataFoldingState = Collapsed,
         outputFoldingState = Collapsed, fired = [],
         originalOutputCollection = [None], originalOutputsTop = None,
         modifiedOutputCollection = [None], modifiedOutputsTop = None\<rparr>))
   \<and> fst (sbs_getOutputTotalHeight
     (sbs_run [SBS_updateOutputHeight True 0 10, SBS_updateOutputHeight False 0 20]
        \<lparr>layoutInfo = initialLayoutInfo, metadataFoldingState = Collapsed,
         outputFoldingState = Collapsed, fired = [],
         originalOutputCollection = [None], originalOutputsTop = None,
         modifiedOutputCollection = [None], modifiedOutputsTop = None\<rparr>))
   \<noteq> totalOfHeights (originalOutputCollection
     (sbs_run [SBS_updateOutputHeight True 0 10, SBS_updateOutputHeight False 0 20]
        \<lparr>layoutInfo = initialLayoutInfo, metadataFoldingState = Collapsed,
         outputFoldingState = Collapsed, fired = [],
         originalOutputCollection = [None], originalOutputsTop = None,
         modifiedOutputCollection = [None], modifiedOutputsTop = None\<rparr>))
   \<and> fst (sbs_getOutputTotalHeight
     (sbs_run [SBS_updateOutputHeight True 0 10, SBS_updateOutputHeight False 0 20]
        \<lparr>layoutInfo = initialLayoutInfo, metadataFoldingState = Collapsed,
         outputFoldingState = Collapsed, fired = [],
         originalOutputCollection = [None], originalOutputsTop = None,
         modifiedOutputCollection = [None], modifiedOutputsTop = None\<rparr>)) = 20"
proof -
  have run: "sbs_run [SBS_updateOutputHeight True 0 10, SBS_updateOutputHeight False 0 20]
        \<lparr>layoutInfo = initialLayoutInfo, metadataFoldingState = Collapsed,
         outputFoldingState = Collapsed, fired = [],
         originalOutputCollection = [None], originalOutputsTop = None,
         modifiedOutputCollection = [None], modifiedOutputsTop = None\<rparr>
     = \<lparr>layoutInfo = initialLayoutInfo, metadataFoldingState = Collapsed,
         outputFoldingState = Collapsed, fired = [emptyEvent, emptyEvent],
         originalOutputCollection = [Some 10],
         originalOutputsTop = Some (PrefixSumComputer [10]),
         modifiedOutputCollection = [Some 20],
         modifiedOutputsTop = Some (PrefixSumComputer [20])\<rparr>"
    by (simp add: sbs_run_def sbs_updateOutputHeight_def sbs_ensureOriginalOutputsTop_def
        sbs_ensureModifiedOutputsTop_def sbs_ensureOutputsTop_def ensureTop_def
        toUint32_def changeValue_def getTotalValue_def sbs_layoutChange_def Let_def
        sbs_getOutputTotalHeight_def initialLayoutInfo_def)
  show ?thesis
    by (simp add: run sbs_getOutputTotalHeight_def sbs_ensureOutputsTop_eq ensureTop_def
        Let_def getTotalValue_def totalOfHeights_def storedHeight_def)
qed

subsection \<open>Layout changes triggered by an update\<close>

text \<open>
  C6. In both variants, in a state reached from the constructor by public calls,
  \<^verbatim>\<open>updateOutputHeight\<close> at a valid index gets from \<^verbatim>\<open>changeValue\<close> of the tracker the
  report whether the accumulated total changes, which is the case exactly when the new
  height differs from the height stored at the index (a slot never set storing \<open>0\<close>).
  Exactly then it runs \<^verbatim>\<open>layoutChange\<close>, which recomputes the output height of the
  layout record and fires one event; otherwise the layout record and the events fired
  are as before.
\<close>

theorem update_triggers_layout_iff_height_differs:
  fixes host :: "('v, 'o, 'e) Host" and d :: NotebookTextModel
    and original' modified' :: "('v, 'o) NotebookCellTextModel" and type :: CellDiffType
    and calls' :: "SideBySideCall list" and b :: bool and i' h' :: nat
    and calls :: "SingleSideCall list" and s0 :: SingleSideCellDiffViewModel and i h :: nat
  defines "s \<equiv> ss_run calls s0"
  defines "s' \<equiv> sbs_run calls' (SideBySide_new host d original' modified' type)"
  defines "c' \<equiv> (if b then originalOutputCollection s' else modifiedOutputCollection s')"
  shows "(SingleSide_new original modified = Inr s0 \<and> i < length (outputCollection s) \<longrightarrow>
            (\<exists>t. outputsTop (ss_ensureOutputsTop s) = Some t
              \<and> snd (changeValue t i h) = (h \<noteq> storedHeight (outputCollection s ! i)))
          \<and> (totalOfHeights (outputCollection (snd (ss_updateOutputHeight i h s)))
                \<noteq> totalOfHeights (outputCollection s)) =
              (h \<noteq> storedHeight (outputCollection s ! i))
          \<and> fired (snd (ss_updateOutputHeight i h s)) =
              (if h \<noteq> storedHeight (outputCollection s ! i) then fired s @ [emptyEvent]
               else fired s)
          \<and> layoutInfo (snd (ss_updateOutputHeight i h s)) =
              (if h \<noteq> storedHeight (outputCollection s ! i)
               then (layoutInfo s)\<lparr>outputHeight :=
                      (if outputFoldingState s = Collapsed then 0
                       else totalOfHeights ((outputCollection s)[i := Some h]))\<rparr>
               else layoutInfo s))
       \<and> (i' < length c' \<longrightarrow>
            (\<exists>t. (if b then originalOutputsTop (sbs_ensureOutputsTop s')
                 else modifiedOutputsTop (sbs_ensureOutputsTop s')) = Some t
              \<and> snd (changeValue t i' h') = (h' \<noteq> storedHeight (c' ! i')))
          \<and> (totalOfHeights (c'[i' := Some h']) \<noteq> totalOfHeights c') =
              (h' \<noteq> storedHeight (c' ! i'))
          \<and> fired (snd (sbs_updateOutputHeight b i' h' s')) =
              (if h' \<noteq> storedHeight (c' ! i') then fired s' @ [emptyEvent] else fired s')
          \<and> layoutInfo (snd (sbs_updateOutputHeight b i' h' s')) =
              (if h' \<noteq> storedHeight (c' ! i')
               then (layoutInfo s')\<lparr>outputHeight :=
                      (if outputFoldingState s' = Collapsed then 0
                       else max
                         (totalOfHeights (if b then c'[i' := Some h']
                                          else originalOutputCollection s'))
                         (totalOfHeights (if b then modifiedOutputCollection s'
                                          else c'[i' := Some h'])))\<rparr>
               else layoutInfo s'))"
proof -
  have single: "(\<exists>t. outputsTop (ss_ensureOutputsTop s) = Some t
              \<and> snd (changeValue t i h) = (h \<noteq> storedHeight (outputCollection s ! i)))
          \<and> (totalOfHeights (outputCollection (snd (ss_updateOutputHeight i h s)))
                \<noteq> totalOfHeights (outputCollection s)) =
              (h \<noteq> storedHeight (outputCollection s ! i))
          \<and> fired (snd (ss_updateOutputHeight i h s)) =
              (if h \<noteq> storedHeight (outputCollection s ! i) then fired s @ [emptyEvent]
               else fired s)
          \<and> layoutInfo (snd (ss_updateOutputHeight i h s)) =
              (if h \<noteq> storedHeight (outputCollection s ! i)
               then (layoutInfo s)\<lparr>outputHeight :=
                      (if outputFoldingState s = Collapsed then 0
                       else totalOfHeights ((outputCollection s)[i := Some h]))\<rparr>
               else layoutInfo s)"
    if new: "SingleSide_new original modified = Inr s0" and valid: "i < length (outputCollection s)"
  proof -
    have inv: "trackerInv (outputsTop s) (outputCollection s)"
      unfolding s_def using new by (rule ss_reachable_inv)
    have "(\<exists>t. outputsTop (ss_ensureOutputsTop s) = Some t
              \<and> snd (changeValue t i h) = (h \<noteq> storedHeight (outputCollection s ! i)))"
      using inv valid by (simp add: ss_ensureOutputsTop_def ensureTop_inv changeValue_reports)
    moreover have "(totalOfHeights (outputCollection (snd (ss_updateOutputHeight i h s)))
                \<noteq> totalOfHeights (outputCollection s)) =
              (h \<noteq> storedHeight (outputCollection s ! i))"
      using valid by (simp only: ss_update_collection totalOfHeights_update_changed)
    ultimately show ?thesis
      using ss_update_effect [OF inv valid] by simp
  qed
  have inv': "trackerInv (originalOutputsTop s') (originalOutputCollection s')"
    "trackerInv (modifiedOutputsTop s') (modifiedOutputCollection s')"
    unfolding s'_def by (rule sbs_reachable_inv)+
  have double: "(\<exists>t. (if b then originalOutputsTop (sbs_ensureOutputsTop s')
                 else modifiedOutputsTop (sbs_ensureOutputsTop s')) = Some t
              \<and> snd (changeValue t i' h') = (h' \<noteq> storedHeight (c' ! i')))
          \<and> (totalOfHeights (c'[i' := Some h']) \<noteq> totalOfHeights c') =
              (h' \<noteq> storedHeight (c' ! i'))
          \<and> fired (snd (sbs_updateOutputHeight b i' h' s')) =
              (if h' \<noteq> storedHeight (c' ! i') then fired s' @ [emptyEvent] else fired s')
          \<and> layoutInfo (snd (sbs_updateOutputHeight b i' h' s')) =
              (if h' \<noteq> storedHeight (c' ! i')
               then (layoutInfo s')\<lparr>outputHeight :=
                      (if outputFoldingState s' = Collapsed then 0
                       else max
                         (totalOfHeights (if b then c'[i' := Some h']
                                          else originalOutputCollection s'))
                         (totalOfHeights (if b then modifiedOutputCollection s'
                                          else c'[i' := Some h'])))\<rparr>
               else layoutInfo s')"
    if valid: "i' < length c'"
  proof (cases b)
    case True
    with valid have v: "i' < length (originalOutputCollection s')" by (simp add: c'_def)
    show ?thesis
      using True v inv'
      by (simp add: c'_def sbs_update_effect_original [OF inv' v] sbs_ensureOutputsTop_eq
          ensureTop_inv changeValue_reports totalOfHeights_update_changed)
  next
    case False
    with valid have v: "i' < length (modifiedOutputCollection s')" by (simp add: c'_def)
    show ?thesis
      using False v inv'
      by (simp add: c'_def sbs_update_effect_modified [OF inv' v] sbs_ensureOutputsTop_eq
          ensureTop_inv changeValue_reports totalOfHeights_update_changed)
  qed
  from single double show ?thesis by blast
qed


theorem update_triggers_layout_iff_height_differs_witness:
  "SingleSide_new (Some \<lparr>metadata = None, language = (), outputs = [(), ()]\<rparr>) None =
     Inr \<lparr>layoutInfo = initialLayoutInfo, metadataFoldingState = Collapsed,
          outputFoldingState = Collapsed, fired = [],
          outputCollection = [None, None], outputsTop = None\<rparr>
   \<and> fired (snd (ss_updateOutputHeight 0 10
        (ss_run [SS_base (Set_outputFoldingState Expanded), SS_updateOutputHeight 0 10]
           \<lparr>layoutInfo = initialLayoutInfo, metadataFoldingState = Collapsed,
            outputFoldingState = Collapsed, fired = [],
            outputCollection = [None, None], outputsTop = None\<rparr>))) = [emptyEvent]
   \<and> fired (snd (ss_updateOutputHeight 0 12
        (ss_run [SS_base (Set_outputFoldingState Expanded), SS_updateOutputHeight 0 10]
           \<lparr>layoutInfo = initialLayoutInfo, metadataFoldingState = Collapsed,
            outputFoldingState = Collapsed, fired = [],
            outputCollection = [None, None], outputsTop = None\<rparr>))) = [emptyEvent, emptyEvent]
   \<and> outputHeight (layoutInfo (snd (ss_updateOutputHeight 0 12
        (ss_run [SS_base (Set_outputFoldingState Expanded), SS_updateOutputHeight 0 10]
           \<lparr>layoutInfo = initialLayoutInfo, metadataFoldingState = Collapsed,
            outputFoldingState = Collapsed, fired = [],
            outputCollection = [None, None], outputsTop = None\<rparr>)))) = 12
   \<and> fired (snd (sbs_updateOutputHeight True 0 0
        (sbs_run []
          (SideBySide_new
             \<lparr>JSON_stringify = (\<lambda>obj. []), format = (\<lambda>content. ()),
              applyEdits = (\<lambda>content edits. content), hashText = (\<lambda>text. 0),
              hashOutputs = (\<lambda>os. int (length os))\<rparr>
             \<lparr>transientMetadata = (\<lambda>key. False), transientOutputs = False\<rparr>
             \<lparr>metadata = None, language = (), outputs = [()]\<rparr>
             \<lparr>metadata = None, language = (), outputs = [()]\<rparr>
             TypeUnchanged)))) = []
   \<and> fired (snd (sbs_updateOutputHeight True 0 5
        (sbs_run []
          (SideBySide_new
             \<lparr>JSON_stringify = (\<lambda>obj. []), format = (\<lambda>content. ()),
              applyEdits = (\<lambda>content edits. content), hashText = (\<lambda>text. 0),
              hashOutputs = (\<lambda>os. int (length os))\<rparr>
             \<lparr>transientMetadata = (\<lambda>key. False), transientOutputs = False\<rparr>
             \<lparr>metadata = None, language = (), outputs = [()]\<rparr>
             \<lparr>metadata = None, language = (), outputs = [()]\<rparr>
             TypeUnchanged)))) = [emptyEvent]"
proof -
  let ?c = "\<lparr>metadata = None, language = (), outputs = [(), ()]\<rparr>"
  let ?s0 = "\<lparr>layoutInfo = initialLayoutInfo, metadataFoldingState = Collapsed,
          outputFoldingState = Collapsed, fired = [],
          outputCollection = [None, None], outputsTop = None\<rparr>"
  let ?calls = "[SS_base (Set_outputFoldingState Expanded), SS_updateOutputHeight 0 10]"
  let ?host = "\<lparr>JSON_stringify = (\<lambda>obj. []), format = (\<lambda>content. ()),
              applyEdits = (\<lambda>content edits. content), hashText = (\<lambda>text. 0),
              hashOutputs = (\<lambda>os. int (length os))\<rparr> :: (unit, unit, unit) Host"
  let ?d = "\<lparr>transientMetadata = (\<lambda>key. False), transientOutputs = False\<rparr>"
  let ?o = "\<lparr>metadata = None, language = (), outputs = [()]\<rparr>"
  have new: "SingleSide_new (Some ?c) (None :: (unit, unit) NotebookCellTextModel option) = Inr ?s0"
    by (simp add: SingleSide_new_def)
  have run: "ss_run ?calls ?s0 =
      \<lparr>layoutInfo = initialLayoutInfo\<lparr>outputHeight := 10\<rparr>, metadataFoldingState = Collapsed,
       outputFoldingState = Expanded, fired = [emptyEvent],
       outputCollection = [Some 10, None], outputsTop = Some (PrefixSumComputer [10, 0])\<rparr>"
    by (simp add: ss_run_def ss_updateOutputHeight_def ss_ensureOutputsTop_def ensureTop_def
        toUint32_def changeValue_def getTotalValue_def ss_layoutChange_def Let_def
        ss_getOutputTotalHeight_def initialLayoutInfo_def)
  have valid: "SingleSide_new (Some ?c) (None :: (unit, unit) NotebookCellTextModel option) = Inr ?s0
      \<and> 0 < length (outputCollection (ss_run ?calls ?s0))"
    using new by (simp add: run)
  have new': "SideBySide_new ?host ?d ?o ?o TypeUnchanged =
      \<lparr>layoutInfo = initialLayoutInfo, metadataFoldingState = Collapsed,
       outputFoldingState = Collapsed, fired = [],
       originalOutputCollection = [None], originalOutputsTop = None,
       modifiedOutputCollection = [None], modifiedOutputsTop = None\<rparr>"
    by (simp add: SideBySide_new_def sbs_checkMetadataIfModified_def
        sbs_checkIfOutputsModified_def)
  have same: "fired (snd (ss_updateOutputHeight 0 10 (ss_run ?calls ?s0))) = [emptyEvent]"
    and differs: "fired (snd (ss_updateOutputHeight 0 12 (ss_run ?calls ?s0))) =
        [emptyEvent, emptyEvent]
      \<and> outputHeight (layoutInfo (snd (ss_updateOutputHeight 0 12 (ss_run ?calls ?s0)))) = 12"
    and same': "fired (snd (sbs_updateOutputHeight True 0 0
        (sbs_run [] (SideBySide_new ?host ?d ?o ?o TypeUnchanged)))) = []"
    and differs': "fired (snd (sbs_updateOutputHeight True 0 5
        (sbs_run [] (SideBySide_new ?host ?d ?o ?o TypeUnchanged)))) = [emptyEvent]"
    using valid
      update_triggers_layout_iff_height_differs [where original = "Some ?c" and modified = None
        and ?s0.0 = ?s0 and calls = ?calls and i = 0 and h = 10 and host = ?host and d = ?d
        and original' = ?o and modified' = ?o and type = TypeUnchanged and calls' = "[]"
        and b = True and i' = 0 and h' = 0]
      update_triggers_layout_iff_height_differs [where original = "Some ?c" and modified = None
        and ?s0.0 = ?s0 and calls = ?calls and i = 0 and h = 12 and host = ?host and d = ?d
        and original' = ?o and modified' = ?o and type = TypeUnchanged and calls' = "[]"
        and b = True and i' = 0 and h' = 5]
    by (simp_all add: run new' sbs_run_def storedHeight_def totalOfHeights_def)
  from new same differs same' differs' show ?thesis by simp
qed

subsection \<open>Notifications of the setters\<close>

text \<open>
  C7. Each of the five setters (\<^verbatim>\<open>outputHeight\<close>, \<^verbatim>\<open>outputStatusHeight\<close>, \<^verbatim>\<open>editorHeight\<close>,
  \<^verbatim>\<open>editorMargin\<close>, \<^verbatim>\<open>metadataHeight\<close>) stores the height in its field and fires exactly
  one event. The event of \<^verbatim>\<open>outputHeight\<close> flags the output editor and the output view,
  that of \<^verbatim>\<open>editorHeight\<close> the editor height, that of \<^verbatim>\<open>metadataHeight\<close> the metadata
  editor; the events of \<^verbatim>\<open>outputStatusHeight\<close> and \<^verbatim>\<open>editorMargin\<close> flag none of the five
  sub-regions. No setter flags the outer width, which only the layout event of the
  editor does.
\<close>

theorem setters_fire_one_event:
  "(\<exists>e. fired (set_outputHeight h s) = fired s @ [e]
        \<and> flaggedRegions e = [OutputEditor, OutputView])
   \<and> get_outputHeight (set_outputHeight h s) = h
   \<and> (\<exists>e. fired (set_outputStatusHeight h s) = fired s @ [e] \<and> flaggedRegions e = [])
   \<and> get_outputStatusHeight (set_outputStatusHeight h s) = h
   \<and> (\<exists>e. fired (set_editorHeight h s) = fired s @ [e] \<and> flaggedRegions e = [EditorHeight])
   \<and> get_editorHeight (set_editorHeight h s) = h
   \<and> (\<exists>e. fired (set_editorMargin h s) = fired s @ [e] \<and> flaggedRegions e = [])
   \<and> get_editorMargin (set_editorMargin h s) = h
   \<and> (\<exists>e. fired (set_metadataHeight h s) = fired s @ [e] \<and> flaggedRegions e = [MetadataEditor])
   \<and> get_metadataHeight (set_metadataHeight h s) = h"
  by (simp add: setter_events setter_layouts flaggedRegions_values get_outputHeight_def
      get_outputStatusHeight_def get_editorHeight_def get_editorMargin_def
      get_metadataHeight_def)

subsection \<open>The metadata snapshot and the metadata check\<close>



end
